theory Spec2Isabelle
  imports Main "HOL-Library.Sublist"
begin

section \<open>The Python runtime as seen by \<^verbatim>\<open>main.py\<close>\<close>

text \<open>
  The program is an orchestration script: it touches the file system, starts external
  processes and writes log records. The model threads an explicit state through every
  function. Everything the script cannot decide by itself (what an external tool does,
  what the JSON library accepts, whether the operating system refuses an operation) is
  a field of an environment record, so that every theorem below holds for each behaviour
  of those collaborators.
\<close>

subsection \<open>Exceptions\<close>

text \<open>
  The handlers of the script distinguish \<^verbatim>\<open>FileNotFoundError\<close>,
  \<^verbatim>\<open>subprocess.CalledProcessError\<close> (carrying the captured stderr),
  \<^verbatim>\<open>json.JSONDecodeError\<close> and plain \<^verbatim>\<open>Exception\<close>. \<open>OSError\<close> stands for
  every operating-system error other than \<^verbatim>\<open>FileNotFoundError\<close>
  (\<^verbatim>\<open>FileExistsError\<close>, \<^verbatim>\<open>IsADirectoryError\<close>, \<^verbatim>\<open>NotADirectoryError\<close>,
  \<^verbatim>\<open>PermissionError\<close>), \<open>ValueError\<close> for a decoding failure that is not a
  \<^verbatim>\<open>JSONDecodeError\<close>. All of them are subclasses of \<^verbatim>\<open>Exception\<close>.
\<close>

datatype exn =
    FileNotFoundError
  | OSError
  | CalledProcessError string
  | JSONDecodeError
  | ValueError
  | AttributeError

subsection \<open>JSON values\<close>

text \<open>
  What \<^verbatim>\<open>json.load\<close> returns. A dictionary keeps its keys in insertion order, so it is
  an association list. A float is carried by its printed form: no claim computes with it.
\<close>

datatype json =
    JNull
  | JBool bool
  | JInt int
  | JFloat string
  | JStr string
  | JList "json list"
  | JDict "(string \<times> json) list"

text \<open>\<^verbatim>\<open>d[k] = v\<close> on a Python dictionary: an existing key keeps its place, a new key
  goes to the end.\<close>

fun dict_set :: "(string \<times> json) list \<Rightarrow> string \<Rightarrow> json \<Rightarrow> (string \<times> json) list" where
  "dict_set [] k v = [(k, v)]"
| "dict_set ((k', v') # d) k v = (if k' = k then (k, v) # d else (k', v') # dict_set d k v)"

text \<open>\<^verbatim>\<open>d[k]\<close> read back: the value stored under a key, if any.\<close>

definition dict_get :: "(string \<times> json) list \<Rightarrow> string \<Rightarrow> json option" where
  "dict_get d k = map_of d k"

subsection \<open>File system\<close>

text \<open>
  A path is the list of its components from the root; the file system maps a path to a
  regular file with its content or to a directory. The root is always a directory.
  The names that the script itself fixes (its report files, its workspace) and the output
  path are resolved lexically against the working directory, as \<^verbatim>\<open>os.path.abspath\<close>
  does: empty components and \<^verbatim>\<open>.\<close> are dropped, \<^verbatim>\<open>..\<close> goes one level up. Symbolic
  links, and permissions on directories that are only passed through, are outside the
  model.
\<close>

type_synonym path = "string list"

datatype node = File string | Dir

type_synonym filesystem = "path \<Rightarrow> node option"

fun split_path :: "string \<Rightarrow> string list" where
  "split_path [] = [[]]"
| "split_path (c # cs) =
     (if c = CHR ''/'' then [] # split_path cs
      else (case split_path cs of [] \<Rightarrow> [[c]] | x # xs \<Rightarrow> (c # x) # xs))"

definition norm_step :: "path \<Rightarrow> string \<Rightarrow> path" where
  "norm_step acc c =
     (if c = [] \<or> c = ''.'' then acc else if c = ''..'' then butlast acc else acc @ [c])"

definition abspath :: "path \<Rightarrow> string \<Rightarrow> path" where
  "abspath wd s =
     foldl norm_step (if s \<noteq> [] \<and> hd s = CHR ''/'' then [] else wd) (split_path s)"

definition node_at :: "filesystem \<Rightarrow> path \<Rightarrow> node option" where
  "node_at f p = (if p = [] then Some Dir else f p)"

text \<open>\<^verbatim>\<open>os.path.join(a, b)\<close> for a relative second argument such as \<^verbatim>\<open>".git"\<close>.\<close>

definition path_join :: "string \<Rightarrow> string \<Rightarrow> string" where
  "path_join a b =
     (if b \<noteq> [] \<and> hd b = CHR ''/'' then b
      else if a = [] \<or> last a = CHR ''/'' then a @ b
      else a @ ''/'' @ b)"

subsection \<open>Processes, log records, state\<close>

text \<open>The outcome of \<^verbatim>\<open>subprocess.run\<close>: a completed process (exit code, captured stdout
  and stderr) or an exception raised while starting it (a missing binary is
  \<^verbatim>\<open>FileNotFoundError\<close>).\<close>

record completed =
  returncode :: int
  stdout :: string
  stderr :: string

datatype proc = Completed completed | ProcRaised exn

datatype level = INFO | WARNING | ERROR

text \<open>A log record is its level and the pieces of its f-string in order: literal text and
  interpolated strings (\<open>S\<close>), an interpolated exit code (\<open>I\<close>), an interpolated
  exception (\<open>E\<close>).\<close>

datatype piece = S string | I int | E exn

type_synonym log_record = "level \<times> piece list"

text \<open>The operations the script asks of the operating system. Each attempt is recorded as an
  event in the state, in order.\<close>

datatype os_op =
    OpenRead path
  | OpenWrite path
  | MakeDirs path
  | RmTree path
  | Exec "string list" "string option"

record state =
  fs :: filesystem
  events :: "os_op list"
  logs :: "log_record list"

text \<open>
  The environment: the working directory, the JSON library (\<^verbatim>\<open>json.load\<close> on the text of a
  file, \<^verbatim>\<open>json.dump\<close> with its \<^verbatim>\<open>indent\<close> argument), the external processes (a command
  line and an optional working directory act on the file system and yield an outcome),
  the operations the operating system refuses (permissions and the like), and the
  \<^verbatim>\<open>schedule\<close> library: which unit properties its job object has, and whether the
  registered job is due at the n-th poll of \<^verbatim>\<open>run_pending\<close>.
\<close>

record env =
  cwd :: path
  json_load :: "string \<Rightarrow> exn + json"
  json_dump :: "nat option \<Rightarrow> json \<Rightarrow> string"
  run_process :: "string list \<Rightarrow> string option \<Rightarrow> filesystem \<Rightarrow> proc \<times> filesystem"
  os_refuses :: "os_op \<Rightarrow> bool"
  job_has_unit :: "string \<Rightarrow> bool"
  job_due :: "nat \<Rightarrow> bool"

definition log :: "level \<Rightarrow> piece list \<Rightarrow> state \<Rightarrow> state" where
  "log l ps st = st\<lparr>logs := logs st @ [(l, ps)]\<rparr>"

definition record_event :: "os_op \<Rightarrow> state \<Rightarrow> state" where
  "record_event ev st = st\<lparr>events := events st @ [ev]\<rparr>"

subsection \<open>Primitives of \<^verbatim>\<open>os\<close>, \<^verbatim>\<open>shutil\<close>, \<^verbatim>\<open>subprocess\<close>\<close>

text \<open>
  \<^verbatim>\<open>os.path.isdir(s)\<close> is applied to the target that the user gives, so it follows the
  operating system: the path is walked component by component from the root or from the
  working directory, and every step, also \<^verbatim>\<open>.\<close>, \<^verbatim>\<open>..\<close> and the empty component of a
  trailing slash, is taken from a directory that exists. The empty string names nothing.
  So \<^verbatim>\<open>missing/..\<close> names nothing when there is no \<^verbatim>\<open>missing\<close>, and neither does
  \<^verbatim>\<open>file/\<close> for a regular file.
\<close>

fun walk :: "filesystem \<Rightarrow> path \<Rightarrow> string list \<Rightarrow> path option" where
  "walk f cur [] = Some cur"
| "walk f cur (c # cs) =
     (if node_at f cur = Some Dir then walk f (norm_step cur c) cs else None)"

definition lookup :: "filesystem \<Rightarrow> path \<Rightarrow> string \<Rightarrow> node option" where
  "lookup f wd s =
     (if s = [] then None
      else (case walk f (if hd s = CHR ''/'' then [] else wd) (split_path s) of
              None \<Rightarrow> None
            | Some p \<Rightarrow> node_at f p))"

definition isdir :: "env \<Rightarrow> string \<Rightarrow> state \<Rightarrow> bool" where
  "isdir e s st = (lookup (fs st) (cwd e) s = Some Dir)"

definition path_exists :: "env \<Rightarrow> string \<Rightarrow> state \<Rightarrow> bool" where
  "path_exists e s st = (node_at (fs st) (abspath (cwd e) s) \<noteq> None)"

text \<open>\<^verbatim>\<open>open(s, "r")\<close> followed by reading the whole file.\<close>

definition read_file :: "env \<Rightarrow> string \<Rightarrow> state \<Rightarrow> (exn + string) \<times> state" where
  "read_file e s st =
     (let p = abspath (cwd e) s; st' = record_event (OpenRead p) st in
      if os_refuses e (OpenRead p) then (Inl OSError, st')
      else (case node_at (fs st) p of
              None \<Rightarrow> (Inl FileNotFoundError, st')
            | Some Dir \<Rightarrow> (Inl OSError, st')
            | Some (File c) \<Rightarrow> (Inr c, st')))"

text \<open>\<^verbatim>\<open>open(s, "w")\<close>, writing the text, closing: the file is replaced as a whole. A path
  that is a directory, or whose parent is not a directory, cannot be opened.\<close>

definition write_file :: "env \<Rightarrow> string \<Rightarrow> string \<Rightarrow> state \<Rightarrow> (exn + unit) \<times> state" where
  "write_file e s txt st =
     (let p = abspath (cwd e) s; st' = record_event (OpenWrite p) st in
      if os_refuses e (OpenWrite p) then (Inl OSError, st')
      else if node_at (fs st) p = Some Dir then (Inl OSError, st')
      else if node_at (fs st) (butlast p) \<noteq> Some Dir then (Inl FileNotFoundError, st')
      else (Inr (), st'\<lparr>fs := (fs st)(p \<mapsto> File txt)\<rparr>))"

definition is_file :: "filesystem \<Rightarrow> path \<Rightarrow> bool" where
  "is_file f p = (case node_at f p of Some (File c) \<Rightarrow> True | _ \<Rightarrow> False)"

text \<open>\<^verbatim>\<open>os.makedirs(s, exist_ok=True)\<close>: an existing directory is kept as it is, missing
  ancestors are created, a regular file in the way is an error, and so is a starting
  directory (the root, or the working directory for a relative path) that does not exist.\<close>

definition makedirs :: "env \<Rightarrow> string \<Rightarrow> state \<Rightarrow> (exn + unit) \<times> state" where
  "makedirs e s st =
     (let p = abspath (cwd e) s; st' = record_event (MakeDirs p) st in
      if os_refuses e (MakeDirs p) then (Inl OSError, st')
      else if list_ex (is_file (fs st)) (prefixes p) then (Inl OSError, st')
      else if node_at (fs st) (if s \<noteq> [] \<and> hd s = CHR ''/'' then [] else cwd e) = None
        then (Inl FileNotFoundError, st')
      else (Inr (), st'\<lparr>fs := (\<lambda>q. if prefix q p \<and> q \<noteq> [] \<and> fs st q = None then Some Dir
                                     else fs st q)\<rparr>))"

text \<open>\<^verbatim>\<open>shutil.rmtree(s)\<close>: removes a directory with everything below it. A refused removal
  leaves the tree as it was (a removal that stops half-way is not modelled).\<close>

definition rmtree :: "env \<Rightarrow> string \<Rightarrow> state \<Rightarrow> (exn + unit) \<times> state" where
  "rmtree e s st =
     (let p = abspath (cwd e) s; st' = record_event (RmTree p) st in
      if os_refuses e (RmTree p) then (Inl OSError, st')
      else (case node_at (fs st) p of
              None \<Rightarrow> (Inl FileNotFoundError, st')
            | Some (File c) \<Rightarrow> (Inl OSError, st')
            | Some Dir \<Rightarrow> (Inr (), st'\<lparr>fs := (\<lambda>q. if prefix p q then None else fs st q)\<rparr>)))"

text \<open>\<^verbatim>\<open>subprocess.run(argv, cwd=wd, check=chk, capture_output=True, text=True)\<close>.\<close>

definition subprocess_run ::
  "env \<Rightarrow> string list \<Rightarrow> string option \<Rightarrow> bool \<Rightarrow> state \<Rightarrow> (exn + completed) \<times> state" where
  "subprocess_run e argv wd chk st =
     (let (r, f') = run_process e argv wd (fs st);
          st' = record_event (Exec argv wd) (st\<lparr>fs := f'\<rparr>) in
      case r of
        ProcRaised x \<Rightarrow> (Inl x, st')
      | Completed c \<Rightarrow>
          if chk \<and> returncode c \<noteq> 0 then (Inl (CalledProcessError (stderr c)), st')
          else (Inr c, st'))"

subsection \<open>String helpers\<close>

text \<open>\<^verbatim>\<open>re.match(r'^(http|https)://', target)\<close>.\<close>

definition is_url :: "string \<Rightarrow> bool" where
  "is_url target = (prefix ''http://'' target \<or> prefix ''https://'' target)"

text \<open>\<^verbatim>\<open>str.strip()\<close> on the ASCII white space.\<close>

definition is_space :: "char \<Rightarrow> bool" where
  "is_space c = (c \<in> set [CHR '' '', CHR 0x09, CHR 0x0A, CHR 0x0B, CHR 0x0C, CHR 0x0D,
                           CHR 0x1C, CHR 0x1D, CHR 0x1E, CHR 0x1F])"

definition strip :: "string \<Rightarrow> string" where
  "strip s = rev (dropWhile is_space (rev (dropWhile is_space s)))"

section \<open>Constants of the script\<close>

definition SECRETS_REPORT_FILENAME :: string where
  "SECRETS_REPORT_FILENAME = ''secrets_report.json''"

definition VULN_REPORT_FILENAME :: string where
  "VULN_REPORT_FILENAME = ''vulnerability_report.json''"

section \<open>\<^verbatim>\<open>consolidate_reports\<close>\<close>

text \<open>
  The body of the \<^verbatim>\<open>try\<close> block up to the point where the dictionary is complete
  (lines 172 to 191). An exception leaves the block: the result is then \<open>Inl\<close>.
  Only the load of the vulnerability report has a handler of its own, and only for
  \<^verbatim>\<open>JSONDecodeError\<close>.
\<close>

definition secrets_not_run :: json where
  "secrets_not_run = JDict [(''status'', JStr ''No secrets scan performed or no secrets found.'')]"

definition vuln_not_run :: json where
  "vuln_not_run = JDict [(''status'', JStr ''No vulnerability scans performed.'')]"

definition vuln_decode_failure :: json where
  "vuln_decode_failure =
     JDict [(''error'', JStr ''Failed to decode vulnerability report.  Check logs for details.'')]"

definition load_secrets ::
  "env \<Rightarrow> (string \<times> json) list \<Rightarrow> state \<Rightarrow> (exn + (string \<times> json) list) \<times> state" where
  "load_secrets e d st =
     (if path_exists e SECRETS_REPORT_FILENAME st then
        (case read_file e SECRETS_REPORT_FILENAME st of
           (Inl x, st1) \<Rightarrow> (Inl x, st1)
         | (Inr txt, st1) \<Rightarrow>
             (case json_load e txt of
                Inl x \<Rightarrow> (Inl x, st1)
              | Inr j \<Rightarrow> (Inr (dict_set d ''secrets'' j), st1)))
      else (Inr (dict_set d ''secrets'' secrets_not_run), st))"

definition load_vulnerabilities ::
  "env \<Rightarrow> (string \<times> json) list \<Rightarrow> state \<Rightarrow> (exn + (string \<times> json) list) \<times> state" where
  "load_vulnerabilities e d st =
     (if path_exists e VULN_REPORT_FILENAME st then
        (case read_file e VULN_REPORT_FILENAME st of
           (Inl x, st1) \<Rightarrow> (Inl x, st1)
         | (Inr txt, st1) \<Rightarrow>
             (case json_load e txt of
                Inl JSONDecodeError \<Rightarrow>
                  (Inr (dict_set d ''vulnerabilities'' vuln_decode_failure),
                   log ERROR [S ''Error decoding vulnerability report: '', E JSONDecodeError,
                              S ''.  The file might be invalid JSON or empty.''] st1)
              | Inl x \<Rightarrow> (Inl x, st1)
              | Inr j \<Rightarrow> (Inr (dict_set d ''vulnerabilities'' j), st1)))
      else (Inr (dict_set d ''vulnerabilities'' vuln_not_run), st))"

definition consolidated_data :: "env \<Rightarrow> state \<Rightarrow> (exn + (string \<times> json) list) \<times> state" where
  "consolidated_data e st =
     (case load_secrets e [] st of
        (Inl x, st1) \<Rightarrow> (Inl x, st1)
      | (Inr d, st1) \<Rightarrow> load_vulnerabilities e d st1)"

text \<open>The whole function (lines 169 to 203): the dictionary is dumped with
  \<^verbatim>\<open>indent=4\<close> into the output file; every exception is caught and logged, so the
  function always returns, with or without having written the file.\<close>

definition consolidate_try :: "env \<Rightarrow> string \<Rightarrow> state \<Rightarrow> (exn + unit) \<times> state" where
  "consolidate_try e output_filename st =
     (case consolidated_data e st of
        (Inl x, st1) \<Rightarrow> (Inl x, st1)
      | (Inr d, st1) \<Rightarrow>
          (case write_file e output_filename (json_dump e (Some 4) (JDict d)) st1 of
             (Inl x, st2) \<Rightarrow> (Inl x, st2)
           | (Inr u, st2) \<Rightarrow>
               (Inr (), log INFO [S ''Consolidated report saved to: '', S output_filename] st2)))"

definition consolidate_reports :: "env \<Rightarrow> string \<Rightarrow> state \<Rightarrow> state" where
  "consolidate_reports e output_filename st =
     (case consolidate_try e output_filename (log INFO [S ''Consolidating reports...''] st) of
        (Inr u, st1) \<Rightarrow> st1
      | (Inl FileNotFoundError, st1) \<Rightarrow>
          log ERROR [S ''Report file not found: '', E FileNotFoundError] st1
      | (Inl x, st1) \<Rightarrow>
          log ERROR [S ''An error occurred during report consolidation: '', E x] st1)"

definition DEFAULT_OUTPUT :: string where
  "DEFAULT_OUTPUT = ''consolidated_report.json''"

section \<open>Repository check and clone\<close>

text \<open>\<^verbatim>\<open>is_git_repository\<close> (lines 46 to 64): a \<^verbatim>\<open>.git\<close> directory, or else the answer of
  \<^verbatim>\<open>git rev-parse\<close> run inside the path. It never raises.\<close>

definition is_git_repository :: "env \<Rightarrow> string \<Rightarrow> state \<Rightarrow> bool \<times> state" where
  "is_git_repository e path st =
     (if isdir e (path_join path ''.git'') st then (True, st)
      else (case subprocess_run e [''git'', ''rev-parse'', ''--is-inside-work-tree'']
                   (Some path) False st of
              (Inr c, st1) \<Rightarrow> (returncode c = 0 \<and> strip (stdout c) = ''true'', st1)
            | (Inl FileNotFoundError, st1) \<Rightarrow> (False, st1)
            | (Inl x, st1) \<Rightarrow>
                (False, log ERROR [S ''Error checking git repository: '', E x] st1)))"

text \<open>\<^verbatim>\<open>clone_repository\<close> (lines 67 to 81): every failure is logged and raised again.\<close>

definition clone_repository :: "env \<Rightarrow> string \<Rightarrow> string \<Rightarrow> state \<Rightarrow> (exn + unit) \<times> state" where
  "clone_repository e repo_url destination_path st =
     (case subprocess_run e [''git'', ''clone'', repo_url, destination_path] None True
             (log INFO [S ''Cloning repository: '', S repo_url, S '' to '', S destination_path]
                st) of
        (Inr c, st1) \<Rightarrow>
          (Inr (), log INFO [S ''Repository cloned successfully to: '', S destination_path] st1)
      | (Inl (CalledProcessError err), st1) \<Rightarrow>
          (Inl (CalledProcessError err), log ERROR [S ''Error cloning repository: '', S err] st1)
      | (Inl FileNotFoundError, st1) \<Rightarrow>
          (Inl FileNotFoundError, log ERROR [S ''Git is not installed. Please install git.''] st1)
      | (Inl x, st1) \<Rightarrow>
          (Inl x, log ERROR [S ''An unexpected error occurred: '', E x] st1))"

section \<open>The three adapters\<close>

definition secrets_command :: "string \<Rightarrow> string list" where
  "secrets_command target =
     [''detect-secrets'', ''scan'', ''--json'', SECRETS_REPORT_FILENAME, target]"

definition nuclei_command :: "string \<Rightarrow> string list" where
  "nuclei_command target = [''nuclei'', ''-u'', target, ''-json'', ''-o'', VULN_REPORT_FILENAME]"

definition testssl_command :: "string \<Rightarrow> string list" where
  "testssl_command target = [''testssl.sh'', ''--jsonfile'', VULN_REPORT_FILENAME, target]"

text \<open>\<^verbatim>\<open>"No secrets found!" in result.stderr\<close>.\<close>

definition no_secrets_found :: "string \<Rightarrow> bool" where
  "no_secrets_found err = sublist ''No secrets found!'' err"

text \<open>The three \<^verbatim>\<open>except\<close> clauses of \<^verbatim>\<open>scan_secrets\<close>.\<close>

definition scan_secrets_failed :: "exn \<Rightarrow> state \<Rightarrow> bool \<times> state" where
  "scan_secrets_failed x st =
     (case x of
        FileNotFoundError \<Rightarrow>
          (False, log ERROR
             [S ''detect-secrets not found. Please install it: pip install detect-secrets''] st)
      | CalledProcessError err \<Rightarrow>
          (False, log ERROR [S ''Error running detect-secrets: '', S err] st)
      | _ \<Rightarrow>
          (False, log ERROR
             [S ''An unexpected error occurred during secret scanning: '', E x] st))"

text \<open>\<^verbatim>\<open>scan_secrets\<close> (lines 83 to 112). When the tool reports that it found nothing, the
  adapter itself writes an empty JSON object to the secrets report.\<close>

definition scan_secrets :: "env \<Rightarrow> string \<Rightarrow> state \<Rightarrow> bool \<times> state" where
  "scan_secrets e target st =
     (case subprocess_run e (secrets_command target) None False
             (log INFO [S ''Scanning for secrets in: '', S target] st) of
        (Inl x, st1) \<Rightarrow> scan_secrets_failed x st1
      | (Inr c, st1) \<Rightarrow>
          if returncode c \<noteq> 0 \<and> \<not> no_secrets_found (stderr c) then
            (True, log INFO [S ''Secret scanning completed.'']
                     (log WARNING [S ''detect-secrets returned a non-zero exit code: '',
                                   I (returncode c), S ''. Error Output: '', S (stderr c)] st1))
          else if no_secrets_found (stderr c) then
            (case write_file e SECRETS_REPORT_FILENAME (json_dump e None (JDict []))
                    (log INFO [S ''No secrets found in the repository.''] st1) of
               (Inl x, st2) \<Rightarrow> scan_secrets_failed x st2
             | (Inr u, st2) \<Rightarrow> (True, log INFO [S ''Secret scanning completed.''] st2))
          else (True, log INFO [S ''Secret scanning completed.''] st1))"

text \<open>\<^verbatim>\<open>run_nuclei\<close> (lines 115 to 141).\<close>

definition run_nuclei :: "env \<Rightarrow> string \<Rightarrow> state \<Rightarrow> bool \<times> state" where
  "run_nuclei e target st =
     (let st0 = log INFO [S ''Running Nuclei against: '', S target] st in
      if \<not> is_url target then
        (False, log WARNING [S ''Target '', S target,
                   S '' doesn't appear to be a URL.  Skipping Nuclei scan.  Consider prepending with http:// or https://'']
                  st0)
      else
        (case subprocess_run e (nuclei_command target) None False st0 of
           (Inr c, st1) \<Rightarrow>
             (True,
              if returncode c \<noteq> 0 then
                log WARNING [S ''Nuclei returned a non-zero exit code: '', I (returncode c),
                             S ''. Error Output: '', S (stderr c)] st1
              else log INFO [S ''Nuclei scan completed. Output saved to '',
                             S VULN_REPORT_FILENAME] st1)
         | (Inl FileNotFoundError, st1) \<Rightarrow>
             (False, log ERROR
                [S ''Nuclei not found. Please install it: refer to projectnuclei.io''] st1)
         | (Inl (CalledProcessError err), st1) \<Rightarrow>
             (False, log ERROR [S ''Error running Nuclei: '', S err] st1)
         | (Inl x, st1) \<Rightarrow>
             (False, log ERROR
                [S ''An unexpected error occurred during Nuclei scan: '', E x] st1)))"

text \<open>\<^verbatim>\<open>run_testssl\<close> (lines 143 to 166).\<close>

definition run_testssl :: "env \<Rightarrow> string \<Rightarrow> state \<Rightarrow> bool \<times> state" where
  "run_testssl e target st =
     (case subprocess_run e (testssl_command target) None False
             (log INFO [S ''Running testssl.sh against: '', S target] st) of
        (Inr c, st1) \<Rightarrow>
          (True,
           if returncode c \<noteq> 0 then
             log WARNING [S ''testssl.sh returned a non-zero exit code: '', I (returncode c),
                          S ''. Error output: '', S (stderr c)] st1
           else log INFO [S ''testssl.sh scan completed. Output saved to '',
                          S VULN_REPORT_FILENAME] st1)
      | (Inl FileNotFoundError, st1) \<Rightarrow>
          (False, log ERROR
             [S ''testssl.sh not found.  Ensure it's installed and in your PATH.''] st1)
      | (Inl (CalledProcessError err), st1) \<Rightarrow>
          (False, log ERROR [S ''Error running testssl.sh: '', S err] st1)
      | (Inl x, st1) \<Rightarrow>
          (False, log ERROR
             [S ''An unexpected error occurred during testssl.sh scan: '', E x] st1))"

section \<open>\<^verbatim>\<open>perform_scan\<close>\<close>

text \<open>The literal of line 214 and the default tool list of line 233.\<close>

definition TEMP_REPO :: string where
  "TEMP_REPO = ''temp_repo''"

definition ALL_TOOLS :: "string list" where
  "ALL_TOOLS = [''detect-secrets'', ''nuclei'', ''testssl.sh'']"

definition apostrophe :: string where
  "apostrophe = [CHR 0x27]"

text \<open>
  How the first part of the \<^verbatim>\<open>try\<close> block (lines 211 to 229) ends: with a path to scan,
  with \<^verbatim>\<open>return False\<close>, or with an exception.
\<close>

datatype resolution = Resolved string | Rejected | Raised exn

text \<open>Lines 227 to 229.\<close>

definition check_git :: "env \<Rightarrow> string \<Rightarrow> state \<Rightarrow> resolution \<times> state" where
  "check_git e scan_target st =
     (case is_git_repository e scan_target st of
        (True, st1) \<Rightarrow> (Resolved scan_target, st1)
      | (False, st1) \<Rightarrow>
          (Rejected, log ERROR [S (''Target '' @ apostrophe), S scan_target,
                                S (apostrophe @ '' is not a valid git repository.'')] st1))"

text \<open>Lines 211 to 229. The second component is the variable \<^verbatim>\<open>temp_dir\<close>: it is set
  before the directory is made, so it is set even when making it or cloning fails.\<close>

definition resolve_target :: "env \<Rightarrow> string \<Rightarrow> state \<Rightarrow> resolution \<times> string option \<times> state" where
  "resolve_target e target st =
     (if is_url target then
        (case makedirs e TEMP_REPO
                (log INFO [S (''Target '' @ apostrophe), S target,
                           S (apostrophe @ '' looks like a remote URL - attempting to clone.'')]
                   st) of
           (Inl x, st1) \<Rightarrow> (Raised x, Some TEMP_REPO, st1)
         | (Inr u, st1) \<Rightarrow>
             (case clone_repository e target TEMP_REPO st1 of
                (Inl x, st2) \<Rightarrow> (Raised x, Some TEMP_REPO, st2)
              | (Inr u', st2) \<Rightarrow>
                  (case check_git e TEMP_REPO st2 of (r, st3) \<Rightarrow> (r, Some TEMP_REPO, st3))))
      else if isdir e target st then
        (case check_git e target
                (log INFO [S (''Target '' @ apostrophe), S target,
                           S (apostrophe @ '' is a local directory - using it directly.'')]
                   st) of
           (r, st1) \<Rightarrow> (r, None, st1))
      else
        (Rejected, None,
         log ERROR [S ''Invalid target: '', S target,
                    S ''. Must be a valid directory path or a remote git URL.''] st))"

text \<open>Lines 231 to 254: the tools in their fixed order. The adapters return a flag that
  \<^verbatim>\<open>perform_scan\<close> does not look at.\<close>

definition effective_tools :: "string list option \<Rightarrow> string list" where
  "effective_tools tools =
     (case tools of None \<Rightarrow> ALL_TOOLS | Some ts \<Rightarrow> if ts = [] then ALL_TOOLS else ts)"

text \<open>Lines 236 and 237.\<close>

definition secrets_step :: "env \<Rightarrow> string \<Rightarrow> string list \<Rightarrow> state \<Rightarrow> state" where
  "secrets_step e scan_target ts st =
     (if ''detect-secrets'' \<in> set ts then snd (scan_secrets e scan_target st) else st)"

text \<open>Lines 240 to 244.\<close>

definition nuclei_step :: "env \<Rightarrow> string \<Rightarrow> string list \<Rightarrow> state \<Rightarrow> state" where
  "nuclei_step e target ts st =
     (if ''nuclei'' \<in> set ts \<and> (is_url target \<or> isdir e target st) then
        (if is_url target then snd (run_nuclei e target st)
         else log INFO [S ''Skipping Nuclei execution because target is not a URL.''] st)
      else st)"

text \<open>Lines 246 to 250.\<close>

definition testssl_step :: "env \<Rightarrow> string \<Rightarrow> string list \<Rightarrow> state \<Rightarrow> state" where
  "testssl_step e target ts st =
     (if ''testssl.sh'' \<in> set ts then
        (if is_url target then snd (run_testssl e target st)
         else log INFO [S ''Skipping testssl.sh as it only supports URLs.''] st)
      else st)"

definition run_tools :: "env \<Rightarrow> string \<Rightarrow> string \<Rightarrow> string list option \<Rightarrow> state \<Rightarrow> state" where
  "run_tools e target scan_target tools st =
     (let ts = effective_tools tools in
      testssl_step e target ts (nuclei_step e target ts (secrets_step e scan_target ts st)))"

text \<open>The \<^verbatim>\<open>try\<close> block with its \<^verbatim>\<open>except Exception\<close> clause (lines 209 to 258): the
  returned flag, the variable \<^verbatim>\<open>temp_dir\<close>, the state.\<close>

definition perform_scan_body ::
  "env \<Rightarrow> string \<Rightarrow> string list option \<Rightarrow> state \<Rightarrow> bool \<times> string option \<times> state" where
  "perform_scan_body e target tools st =
     (case resolve_target e target st of
        (Raised x, td, st1) \<Rightarrow>
          (False, td, log ERROR [S ''An error occurred during the scan: '', E x] st1)
      | (Rejected, td, st1) \<Rightarrow> (False, td, st1)
      | (Resolved scan_target, td, st1) \<Rightarrow>
          (True, td, run_tools e target scan_target tools st1))"

text \<open>The \<^verbatim>\<open>finally\<close> clause (lines 259 to 267).\<close>

definition cleanup :: "env \<Rightarrow> string option \<Rightarrow> state \<Rightarrow> state" where
  "cleanup e temp_dir st =
     (case temp_dir of
        None \<Rightarrow> st
      | Some d \<Rightarrow>
          if d \<noteq> [] \<and> path_exists e d st then
            (case rmtree e d st of
               (Inr u, st1) \<Rightarrow> log INFO [S ''Cleaned up temporary directory: '', S d] st1
             | (Inl x, st1) \<Rightarrow>
                 log ERROR [S ''Failed to remove temporary directory: '', S d,
                            S ''.  Manual removal may be needed. Error: '', E x] st1)
          else st)"

definition perform_scan :: "env \<Rightarrow> string \<Rightarrow> string list option \<Rightarrow> state \<Rightarrow> bool \<times> state" where
  "perform_scan e target tools st =
     (case perform_scan_body e target tools st of (b, td, st1) \<Rightarrow> (b, cleanup e td st1))"

section \<open>Scheduling\<close>

text \<open>The nested function \<^verbatim>\<open>scheduled_job\<close> (lines 272 to 278).\<close>

definition scheduled_job :: "env \<Rightarrow> string \<Rightarrow> string list option \<Rightarrow> state \<Rightarrow> state" where
  "scheduled_job e target tools st =
     (case perform_scan e target tools
             (log INFO [S ''Starting scheduled scan for target: '', S target] st) of
        (True, st1) \<Rightarrow>
          consolidate_reports e DEFAULT_OUTPUT
            (log INFO [S ''Scheduled scan for target: '', S target,
                       S '' completed successfully.''] st1)
      | (False, st1) \<Rightarrow>
          log ERROR [S ''Scheduled scan for target: '', S target, S '' failed.''] st1)"

text \<open>
  The loop of lines 294 to 296. Each round polls \<^verbatim>\<open>schedule.run_pending()\<close>, which runs the
  registered job when it is due, and sleeps. The loop has no exit: a run that never
  returns has the value \<open>None\<close>.
\<close>

partial_function (option) polling_loop ::
  "env \<Rightarrow> string \<Rightarrow> string list option \<Rightarrow> nat \<Rightarrow> state \<Rightarrow> state option" where
  [code]: "polling_loop e target tools n st =
     polling_loop e target tools (Suc n)
       (if job_due e n then scheduled_job e target tools st else st)"

text \<open>\<^verbatim>\<open>schedule.every().<unit>.do(scheduled_job)\<close>: reading a property that the job object
  does not have raises \<^verbatim>\<open>AttributeError\<close>.\<close>

definition register_job :: "env \<Rightarrow> string \<Rightarrow> exn + unit" where
  "register_job e unit_name = (if job_has_unit e unit_name then Inr () else Inl AttributeError)"

definition enter_loop ::
  "env \<Rightarrow> string \<Rightarrow> string \<Rightarrow> string list option \<Rightarrow> state \<Rightarrow> ((exn + unit) \<times> state) option" where
  "enter_loop e target schedule_type tools st =
     map_option (\<lambda>st'. (Inr (), st'))
       (polling_loop e target tools 0
          (log INFO [S ''Scan scheduled for target: '', S target, S '' with schedule: '',
                     S schedule_type] st))"

text \<open>\<^verbatim>\<open>schedule_scan\<close> (lines 269 to 296): \<open>None\<close> when the call never returns, otherwise how
  it ended (normally or with an exception) and the state.\<close>

definition schedule_scan ::
  "env \<Rightarrow> string \<Rightarrow> string \<Rightarrow> string list option \<Rightarrow> state \<Rightarrow> ((exn + unit) \<times> state) option" where
  "schedule_scan e target schedule_type tools st =
     (if schedule_type = ''daily'' then
        (case register_job e ''day'' of
           Inl x \<Rightarrow> Some (Inl x, st)
         | Inr u \<Rightarrow> enter_loop e target schedule_type tools st)
      else if schedule_type = ''weekly'' then
        (case register_job e ''week'' of
           Inl x \<Rightarrow> Some (Inl x, st)
         | Inr u \<Rightarrow> enter_loop e target schedule_type tools st)
      else if schedule_type = ''monthly'' then
        (case register_job e ''month'' of
           Inl x \<Rightarrow> Some (Inl x, st)
         | Inr u \<Rightarrow> enter_loop e target schedule_type tools st)
      else if schedule_type = ''once'' then Some (Inr (), scheduled_job e target tools st)
      else Some (Inr (), log ERROR [S ''Invalid schedule type: '', S schedule_type] st))"

text \<open>The \<^verbatim>\<open>scan\<close> branch of \<^verbatim>\<open>main\<close> (lines 305 to 315).\<close>

definition main_scan ::
  "env \<Rightarrow> string \<Rightarrow> string \<Rightarrow> string list option \<Rightarrow> state \<Rightarrow> state option" where
  "main_scan e target schedule_type tools st =
     (if schedule_type = ''once'' then
        (case perform_scan e target tools st of
           (True, st1) \<Rightarrow> Some (consolidate_reports e DEFAULT_OUTPUT st1)
         | (False, st1) \<Rightarrow> Some (log ERROR [S ''Scan failed.''] st1))
      else
        (case schedule_scan e target schedule_type tools st of
           None \<Rightarrow> None
         | Some (Inl x, st1) \<Rightarrow> Some (log ERROR [S ''An error occurred: '', E x] st1)
         | Some (Inr u, st1) \<Rightarrow> Some st1))"

section \<open>Notions used to state the properties\<close>

text \<open>When \<^verbatim>\<open>open(s, "w")\<close> succeeds on a path.\<close>

definition can_write :: "env \<Rightarrow> filesystem \<Rightarrow> path \<Rightarrow> bool" where
  "can_write e f p =
     (\<not> os_refuses e (OpenWrite p) \<and> node_at f p \<noteq> Some Dir \<and> node_at f (butlast p) = Some Dir)"

text \<open>What loading one raw report yields, read off the node found under its name: the
  placeholder when there is none, an error when it cannot be read, else what the JSON
  library makes of its text.\<close>

definition load_outcome :: "env \<Rightarrow> filesystem \<Rightarrow> string \<Rightarrow> json \<Rightarrow> exn + json" where
  "load_outcome e f name absent =
     (case node_at f (abspath (cwd e) name) of
        None \<Rightarrow> Inr absent
      | Some n \<Rightarrow>
          if os_refuses e (OpenRead (abspath (cwd e) name)) then Inl OSError
          else (case n of Dir \<Rightarrow> Inl OSError | File c \<Rightarrow> json_load e c))"

text \<open>The second state continues the event trace of the first with operations from a
  given set only.\<close>

definition emits :: "state \<Rightarrow> state \<Rightarrow> os_op set \<Rightarrow> bool" where
  "emits st st' A = (\<exists>xs. events st' = events st @ xs \<and> set xs \<subseteq> A)"

text \<open>The operations that target resolution may ask for.\<close>

definition resolve_ops :: "env \<Rightarrow> string \<Rightarrow> os_op set" where
  "resolve_ops e t =
     (if is_url t then
        {MakeDirs (abspath (cwd e) TEMP_REPO), Exec [''git'', ''clone'', t, TEMP_REPO] None,
         Exec [''git'', ''rev-parse'', ''--is-inside-work-tree''] (Some TEMP_REPO)}
      else {Exec [''git'', ''rev-parse'', ''--is-inside-work-tree''] (Some t)})"

text \<open>The operations that the tool stage may ask for.\<close>

definition tool_ops :: "env \<Rightarrow> string \<Rightarrow> string \<Rightarrow> os_op set" where
  "tool_ops e t p =
     {Exec (secrets_command p) None, OpenWrite (abspath (cwd e) SECRETS_REPORT_FILENAME)}
     \<union> (if is_url t then {Exec (nuclei_command t) None, Exec (testssl_command t) None} else {})"

definition resolved :: "resolution \<Rightarrow> bool" where
  "resolved r = (case r of Resolved p \<Rightarrow> True | _ \<Rightarrow> False)"

text \<open>
  When target resolution succeeds, in terms of the primitives: for a remote URL the
  workspace can be made, the clone succeeds and the clone passes the repository check;
  for anything else the target is a directory and passes the repository check.
\<close>

definition resolution_succeeds :: "env \<Rightarrow> string \<Rightarrow> state \<Rightarrow> bool" where
  "resolution_succeeds e t st =
     (if is_url t then
        (case makedirs e TEMP_REPO st of
           (Inl x, st1) \<Rightarrow> False
         | (Inr u, st1) \<Rightarrow>
             (case clone_repository e t TEMP_REPO st1 of
                (Inl x, st2) \<Rightarrow> False
              | (Inr u', st2) \<Rightarrow> fst (is_git_repository e TEMP_REPO st2)))
      else isdir e t st \<and> fst (is_git_repository e t st))"

text \<open>Everything a scan may ask of the operating system.\<close>

definition scan_ops :: "env \<Rightarrow> string \<Rightarrow> state \<Rightarrow> os_op set" where
  "scan_ops e t st =
     resolve_ops e t
     \<union> (if resolved (fst (resolve_target e t st))
        then tool_ops e t (case fst (resolve_target e t st) of Resolved p \<Rightarrow> p | _ \<Rightarrow> [])
        else {})
     \<union> (if is_url t then {RmTree (abspath (cwd e) TEMP_REPO)} else {})"


definition url_adapter_call :: "os_op \<Rightarrow> bool" where
  "url_adapter_call ev =
     (case ev of
        Exec argv wd \<Rightarrow> argv \<noteq> [] \<and> hd argv \<in> set [''nuclei'', ''testssl.sh'']
      | _ \<Rightarrow> False)"

definition workspace_op :: "os_op \<Rightarrow> bool" where
  "workspace_op ev =
     (case ev of
        MakeDirs p \<Rightarrow> True
      | RmTree p \<Rightarrow> True
      | Exec argv wd \<Rightarrow> take 2 argv = [''git'', ''clone'']
      | _ \<Rightarrow> False)"


text \<open>A property of the file system that no external process destroys, and one that
  writing the secrets report does not destroy.\<close>

definition procs_keep :: "env \<Rightarrow> (filesystem \<Rightarrow> bool) \<Rightarrow> bool" where
  "procs_keep e P = (\<forall>argv wd f. P f \<longrightarrow> P (snd (run_process e argv wd f)))"

definition writes_keep :: "env \<Rightarrow> (filesystem \<Rightarrow> bool) \<Rightarrow> bool" where
  "writes_keep e P =
     (\<forall>f txt. P f \<and> can_write e f (abspath (cwd e) SECRETS_REPORT_FILENAME) \<longrightarrow>
        P (f(abspath (cwd e) SECRETS_REPORT_FILENAME \<mapsto> File txt)))"

text \<open>No external process removes or replaces a given directory.\<close>

definition tools_keep_dir :: "env \<Rightarrow> path \<Rightarrow> bool" where
  "tools_keep_dir e p =
     (\<forall>argv wd f. node_at f p = Some Dir \<longrightarrow> node_at (snd (run_process e argv wd f)) p = Some Dir)"

text \<open>No external process removes or replaces the directory that a target names.\<close>

definition tools_keep_target :: "env \<Rightarrow> string \<Rightarrow> bool" where
  "tools_keep_target e t =
     (\<forall>argv wd f. lookup f (cwd e) t = Some Dir \<longrightarrow>
        lookup (snd (run_process e argv wd f)) (cwd e) t = Some Dir)"

text \<open>The same environment with an operating system that refuses to remove anything.\<close>

definition refusing_removal :: "env \<Rightarrow> env" where
  "refusing_removal e =
     e\<lparr>os_refuses := (\<lambda>op. case op of RmTree p \<Rightarrow> True | _ \<Rightarrow> os_refuses e op)\<rparr>"

text \<open>The log records by which the two scanners that need a URL are passed over.\<close>

definition nuclei_skipped :: log_record where
  "nuclei_skipped = (INFO, [S ''Skipping Nuclei execution because target is not a URL.''])"

definition testssl_skipped :: log_record where
  "testssl_skipped = (INFO, [S ''Skipping testssl.sh as it only supports URLs.''])"

text \<open>The file that each adapter names on its command line as the place of its output.\<close>

definition secrets_output :: "string \<Rightarrow> string" where
  "secrets_output target = secrets_command target ! 3"

definition nuclei_output :: "string \<Rightarrow> string" where
  "nuclei_output target = nuclei_command target ! 5"

definition testssl_output :: "string \<Rightarrow> string" where
  "testssl_output target = testssl_command target ! 2"

text \<open>The two placeholders in the words of the specification, to compare with the ones of
  the script.\<close>

definition spec_not_run :: json where
  "spec_not_run = JDict [(''status'', JStr ''not run'')]"

definition spec_decode_failure :: json where
  "spec_decode_failure = JDict [(''error'', JStr ''decode failure'')]"

section \<open>A concrete environment\<close>

text \<open>
  One instance of the environment, to run the model on concrete inputs: a JSON library that
  reads only the empty object and the empty array and prints compactly, a \<^verbatim>\<open>git clone\<close>
  that fills \<^verbatim>\<open>temp_repo\<close>, scanners that exit with 0 and write nothing, an operating
  system that refuses nothing, and the unit properties of the job object of the
  \<^verbatim>\<open>schedule\<close> library (it has no \<^verbatim>\<open>month\<close>).
\<close>

fun show_nat :: "nat \<Rightarrow> string" where
  "show_nat n =
     (if n < 10 then [char_of (48 + n)] else show_nat (n div 10) @ [char_of (48 + n mod 10)])"

declare show_nat.simps [simp del]

fun sep_by :: "string \<Rightarrow> string list \<Rightarrow> string" where
  "sep_by sep [] = []"
| "sep_by sep [x] = x"
| "sep_by sep (x # y # zs) = x @ sep @ sep_by sep (y # zs)"

fun sample_dump :: "nat option \<Rightarrow> json \<Rightarrow> string" where
  "sample_dump ind JNull = ''null''"
| "sample_dump ind (JBool b) = (if b then ''true'' else ''false'')"
| "sample_dump ind (JInt i) = (if i < 0 then ''-'' @ show_nat (nat (- i)) else show_nat (nat i))"
| "sample_dump ind (JFloat r) = r"
| "sample_dump ind (JStr s) = ''\"'' @ s @ ''\"''"
| "sample_dump ind (JList xs) = ''['' @ sep_by '', '' (map (sample_dump ind) xs) @ '']''"
| "sample_dump ind (JDict kvs) =
     ''{'' @ sep_by '', '' (map (\<lambda>(k, v). ''\"'' @ k @ ''\": '' @ sample_dump ind v) kvs) @ ''}''"

definition sample_load :: "string \<Rightarrow> exn + json" where
  "sample_load s =
     (if strip s = ''{}'' then Inr (JDict [])
      else if strip s = ''[]'' then Inr (JList [])
      else Inl JSONDecodeError)"

definition ok_process :: proc where
  "ok_process = Completed \<lparr>returncode = 0, stdout = [], stderr = []\<rparr>"

definition sample_run :: "string list \<Rightarrow> string option \<Rightarrow> filesystem \<Rightarrow> proc \<times> filesystem" where
  "sample_run argv wd f =
     (if take 2 argv = [''git'', ''clone''] then
        (ok_process, f([''work'', ''temp_repo''] \<mapsto> Dir, [''work'', ''temp_repo'', ''.git''] \<mapsto> Dir))
      else (ok_process, f))"

definition schedule_job_units :: "string list" where
  "schedule_job_units =
     [''second'', ''seconds'', ''minute'', ''minutes'', ''hour'', ''hours'', ''day'', ''days'',
      ''week'', ''weeks'', ''monday'', ''tuesday'', ''wednesday'', ''thursday'', ''friday'',
      ''saturday'', ''sunday'']"

definition sample_env :: env where
  "sample_env =
     \<lparr>cwd = [''work''], json_load = sample_load, json_dump = sample_dump,
      run_process = sample_run, os_refuses = (\<lambda>op. False),
      job_has_unit = (\<lambda>u. u \<in> set schedule_job_units),
      job_due = (\<lambda>n. n mod 1440 = 1439)\<rparr>"

text \<open>The concrete environment with such an operating system.\<close>

definition stubborn_env :: env where
  "stubborn_env = refusing_removal sample_env"

text \<open>The same environment with scanners that cannot even be started.\<close>

definition broken_scanners_env :: env where
  "broken_scanners_env =
     sample_env\<lparr>run_process := (\<lambda>argv wd f. if take 1 argv = [''git''] then sample_run argv wd f
                                             else (ProcRaised OSError, f))\<rparr>"

definition initial_state :: "(path \<times> node) list \<Rightarrow> state" where
  "initial_state entries = \<lparr>fs = map_of entries, events = [], logs = []\<rparr>"

text \<open>A working directory without any report; one with an unparseable vulnerability report;
  one with an unparseable secrets report; one with an empty secrets report; one with a local
  repository; one with a directory \<^verbatim>\<open>temp_repo\<close> left by somebody else; one whose
  working directory is itself a repository; one with a directory that is no repository.\<close>

definition st_no_reports :: state where
  "st_no_reports = initial_state [([''work''], Dir)]"

definition st_bad_vuln :: state where
  "st_bad_vuln =
     initial_state [([''work''], Dir), ([''work'', ''vulnerability_report.json''], File ''not json'')]"

definition st_bad_secrets :: state where
  "st_bad_secrets =
     initial_state [([''work''], Dir), ([''work'', ''secrets_report.json''], File ''not json'')]"

definition st_empty_secrets :: state where
  "st_empty_secrets =
     initial_state [([''work''], Dir), ([''work'', ''secrets_report.json''], File ''{}'')]"

definition st_local_repo :: state where
  "st_local_repo =
     initial_state [([''work''], Dir), ([''work'', ''repo''], Dir),
                    ([''work'', ''repo'', ''.git''], Dir)]"

definition st_old_workspace :: state where
  "st_old_workspace =
     initial_state [([''work''], Dir), ([''work'', ''temp_repo''], Dir),
                    ([''work'', ''temp_repo'', ''notes.txt''], File ''keep me'')]"

definition st_cwd_repo :: state where
  "st_cwd_repo = initial_state [([''work''], Dir), ([''work'', ''.git''], Dir)]"


section \<open>Properties\<close>

subsection \<open>State components\<close>

lemma fs_log [simp]: "fs (log l ps st) = fs st"
  by (simp add: log_def)

lemma events_log [simp]: "events (log l ps st) = events st"
  by (simp add: log_def)

lemma logs_log [simp]: "logs (log l ps st) = logs st @ [(l, ps)]"
  by (simp add: log_def)

lemma fs_record_event [simp]: "fs (record_event ev st) = fs st"
  by (simp add: record_event_def)

lemma events_record_event [simp]: "events (record_event ev st) = events st @ [ev]"
  by (simp add: record_event_def)

lemma logs_record_event [simp]: "logs (record_event ev st) = logs st"
  by (simp add: record_event_def)

lemma path_exists_log [simp]: "path_exists e s (log l ps st) = path_exists e s st"
  by (simp add: path_exists_def)

lemma isdir_log [simp]: "isdir e s (log l ps st) = isdir e s st"
  by (simp add: isdir_def)

subsection \<open>The concrete environment\<close>

lemma sample_paths [simp]:
  "abspath [''work''] SECRETS_REPORT_FILENAME = [''work'', ''secrets_report.json'']"
  "abspath [''work''] VULN_REPORT_FILENAME = [''work'', ''vulnerability_report.json'']"
  "abspath [''work''] DEFAULT_OUTPUT = [''work'', ''consolidated_report.json'']"
  "abspath [''work''] TEMP_REPO = [''work'', ''temp_repo'']"
  by (simp_all add: abspath_def norm_step_def SECRETS_REPORT_FILENAME_def
        VULN_REPORT_FILENAME_def DEFAULT_OUTPUT_def TEMP_REPO_def)

lemma sample_env_fields [simp]:
  "cwd sample_env = [''work'']"
  "json_load sample_env = sample_load"
  "json_dump sample_env = sample_dump"
  "run_process sample_env = sample_run"
  "os_refuses sample_env op = False"
  by (simp_all add: sample_env_def)

subsection \<open>Reading and writing files\<close>

lemma read_file_fs [simp]: "fs (snd (read_file e s st)) = fs st"
  by (simp add: read_file_def Let_def split: option.split node.split)

lemma write_file_fs:
  "fs (snd (write_file e s txt st)) =
     (if can_write e (fs st) (abspath (cwd e) s) then (fs st)(abspath (cwd e) s \<mapsto> File txt)
      else fs st)"
  by (simp add: write_file_def can_write_def Let_def)

lemma write_file_fst:
  "fst (write_file e s txt st) =
     (if can_write e (fs st) (abspath (cwd e) s) then Inr ()
      else if os_refuses e (OpenWrite (abspath (cwd e) s))
              \<or> node_at (fs st) (abspath (cwd e) s) = Some Dir then Inl OSError
      else Inl FileNotFoundError)"
  by (simp add: write_file_def can_write_def Let_def)

subsection \<open>Consolidation\<close>

lemma load_secrets_fs [simp]: "fs (snd (load_secrets e d st)) = fs st"
  by (simp add: load_secrets_def split_beta split: sum.split)

lemma load_secrets_fst:
  "fst (load_secrets e d st) =
     (case load_outcome e (fs st) SECRETS_REPORT_FILENAME secrets_not_run of
        Inl x \<Rightarrow> Inl x | Inr j \<Rightarrow> Inr (dict_set d ''secrets'' j))"
  by (simp add: load_secrets_def load_outcome_def path_exists_def read_file_def Let_def
           split: option.split node.split sum.split)

lemma load_vulnerabilities_fs [simp]: "fs (snd (load_vulnerabilities e d st)) = fs st"
  by (simp add: load_vulnerabilities_def split_beta split: sum.split exn.split)

lemma load_vulnerabilities_fst:
  "fst (load_vulnerabilities e d st) =
     (case node_at (fs st) (abspath (cwd e) VULN_REPORT_FILENAME) of
        Some (File c) \<Rightarrow>
          if os_refuses e (OpenRead (abspath (cwd e) VULN_REPORT_FILENAME)) then Inl OSError
          else (case json_load e c of
                  Inl JSONDecodeError \<Rightarrow> Inr (dict_set d ''vulnerabilities'' vuln_decode_failure)
                | Inl x \<Rightarrow> Inl x
                | Inr j \<Rightarrow> Inr (dict_set d ''vulnerabilities'' j))
      | Some Dir \<Rightarrow> Inl OSError
      | None \<Rightarrow> Inr (dict_set d ''vulnerabilities'' vuln_not_run))"
  by (simp add: load_vulnerabilities_def path_exists_def read_file_def Let_def
           split: option.split node.split sum.split exn.split)

lemma consolidated_data_fs [simp]: "fs (snd (consolidated_data e st)) = fs st"
  by (simp add: consolidated_data_def split_beta split: sum.split)

lemma consolidated_data_fst:
  "fst (consolidated_data e st) =
     (case fst (load_secrets e [] st) of
        Inl x \<Rightarrow> Inl x
      | Inr d \<Rightarrow> fst (load_vulnerabilities e d (snd (load_secrets e [] st))))"
  by (simp add: consolidated_data_def split_beta split: sum.split)

text \<open>The dictionary depends on the file system only, and there only on the two raw
  reports.\<close>

lemma consolidated_data_cong:
  assumes "node_at (fs st') (abspath (cwd e) SECRETS_REPORT_FILENAME)
             = node_at (fs st) (abspath (cwd e) SECRETS_REPORT_FILENAME)"
      and "node_at (fs st') (abspath (cwd e) VULN_REPORT_FILENAME)
             = node_at (fs st) (abspath (cwd e) VULN_REPORT_FILENAME)"
  shows "fst (consolidated_data e st') = fst (consolidated_data e st)"
  using assms
  by (simp add: consolidated_data_fst load_secrets_fst load_vulnerabilities_fst load_outcome_def
           cong: sum.case_cong)

lemma consolidate_try_fs:
  "fs (snd (consolidate_try e out st)) =
     (case fst (consolidated_data e st) of
        Inl x \<Rightarrow> fs st
      | Inr d \<Rightarrow>
          if can_write e (fs st) (abspath (cwd e) out)
          then (fs st)(abspath (cwd e) out \<mapsto> File (json_dump e (Some 4) (JDict d)))
          else fs st)"
  by (simp add: consolidate_try_def split_beta write_file_fs split: sum.split)

lemma consolidate_reports_fs:
  "fs (consolidate_reports e out st) =
     (case fst (consolidated_data e st) of
        Inl x \<Rightarrow> fs st
      | Inr d \<Rightarrow>
          if can_write e (fs st) (abspath (cwd e) out)
          then (fs st)(abspath (cwd e) out \<mapsto> File (json_dump e (Some 4) (JDict d)))
          else fs st)"
proof -
  have "fs (consolidate_reports e out st)
          = fs (snd (consolidate_try e out (log INFO [S ''Consolidating reports...''] st)))"
    by (simp add: consolidate_reports_def split_beta split: sum.split exn.split)
  also have "fst (consolidated_data e (log INFO [S ''Consolidating reports...''] st))
               = fst (consolidated_data e st)"
    by (rule consolidated_data_cong) simp_all
  then have "fs (snd (consolidate_try e out (log INFO [S ''Consolidating reports...''] st))) =
     (case fst (consolidated_data e st) of
        Inl x \<Rightarrow> fs st
      | Inr d \<Rightarrow>
          if can_write e (fs st) (abspath (cwd e) out)
          then (fs st)(abspath (cwd e) out \<mapsto> File (json_dump e (Some 4) (JDict d)))
          else fs st)"
    by (simp add: consolidate_try_fs split: sum.split)
  finally show ?thesis .
qed


text \<open>
  Claim C1, as the script has it. When the vulnerability report is present and
  \<^verbatim>\<open>json.load\<close> raises \<^verbatim>\<open>JSONDecodeError\<close> on it, while the secrets report is absent
  or loads, and the output file can be written, then consolidation does not abort: it puts
  the placeholder of the script (an object with the key \<^verbatim>\<open>error\<close> and the text
  ``Failed to decode vulnerability report.  Check logs for details.'') under
  \<^verbatim>\<open>vulnerabilities\<close> and writes the consolidated file.
\<close>

theorem vulnerability_decode_failure_contained:
  assumes vuln: "node_at (fs st) (abspath (cwd e) VULN_REPORT_FILENAME) = Some (File txt)"
      and readable: "\<not> os_refuses e (OpenRead (abspath (cwd e) VULN_REPORT_FILENAME))"
      and bad: "json_load e txt = Inl JSONDecodeError"
      and secrets: "load_outcome e (fs st) SECRETS_REPORT_FILENAME secrets_not_run = Inr sv"
      and writable: "can_write e (fs st) (abspath (cwd e) out)"
  shows "fst (consolidated_data e st)
           = Inr [(''secrets'', sv), (''vulnerabilities'', vuln_decode_failure)]
         \<and> fs (consolidate_reports e out st)
           = (fs st)(abspath (cwd e) out \<mapsto>
               File (json_dump e (Some 4)
                 (JDict [(''secrets'', sv), (''vulnerabilities'', vuln_decode_failure)])))"
proof -
  have d: "fst (consolidated_data e st)
             = Inr [(''secrets'', sv), (''vulnerabilities'', vuln_decode_failure)]"
    using vuln readable bad secrets
    by (simp add: consolidated_data_fst load_secrets_fst load_vulnerabilities_fst)
  then show ?thesis
    using writable by (simp add: consolidate_reports_fs)
qed

theorem vulnerability_decode_failure_contained_witness:
  "fst (consolidated_data sample_env st_bad_vuln)
     = Inr [(''secrets'', secrets_not_run), (''vulnerabilities'', vuln_decode_failure)]
   \<and> fs (consolidate_reports sample_env DEFAULT_OUTPUT st_bad_vuln)
     = (fs st_bad_vuln)([''work'', ''consolidated_report.json''] \<mapsto>
          File (sample_dump (Some 4)
            (JDict [(''secrets'', secrets_not_run), (''vulnerabilities'', vuln_decode_failure)])))"
  using vulnerability_decode_failure_contained
          [of st_bad_vuln sample_env "''not json''" secrets_not_run DEFAULT_OUTPUT]
  by (simp add: st_bad_vuln_def initial_state_def node_at_def sample_load_def strip_def
        is_space_def load_outcome_def can_write_def)

text \<open>The claim as stated asks for the placeholder \<open>spec_decode_failure\<close>. With an
  unparseable vulnerability report and no secrets report, the entry is another object.\<close>

theorem decode_failure_placeholder_counterexample:
  "node_at (fs st_bad_vuln) (abspath (cwd sample_env) VULN_REPORT_FILENAME) = Some (File ''not json'')
   \<and> json_load sample_env ''not json'' = Inl JSONDecodeError
   \<and> fst (consolidated_data sample_env st_bad_vuln)
       = Inr [(''secrets'', secrets_not_run), (''vulnerabilities'', vuln_decode_failure)]
   \<and> vuln_decode_failure \<noteq> spec_decode_failure"
  by (simp add: consolidated_data_fst load_secrets_fst load_vulnerabilities_fst load_outcome_def
        st_bad_vuln_def initial_state_def node_at_def sample_load_def strip_def
        is_space_def vuln_decode_failure_def spec_decode_failure_def)

lemma load_vulnerabilities_keeps_secrets:
  "fst (load_vulnerabilities e [(''secrets'', v)] st) = Inr d \<Longrightarrow> dict_get d ''secrets'' = Some v"
  by (auto simp: load_vulnerabilities_fst dict_get_def split: option.splits node.splits if_splits sum.splits exn.splits)

text \<open>
  Claim C2, as the script has it. With both raw reports absent the dictionary is the two
  placeholders of the script. Whenever the dictionary is built, the consolidated file (when
  it can be written) is its dump, and the entry of an absent raw report is the placeholder of
  the script for that category: an object with the key \<^verbatim>\<open>status\<close> and the text
  ``No secrets scan performed or no secrets found.'' for the secrets, ``No vulnerability
  scans performed.'' for the vulnerabilities.
\<close>

theorem absent_reports_get_placeholders:
  "(\<not> path_exists e SECRETS_REPORT_FILENAME st \<and> \<not> path_exists e VULN_REPORT_FILENAME st
      \<longrightarrow> fst (consolidated_data e st)
            = Inr [(''secrets'', secrets_not_run), (''vulnerabilities'', vuln_not_run)])
   \<and> (\<forall>d. fst (consolidated_data e st) = Inr d \<longrightarrow>
         (can_write e (fs st) (abspath (cwd e) out)
            \<longrightarrow> fs (consolidate_reports e out st)
                  = (fs st)(abspath (cwd e) out \<mapsto> File (json_dump e (Some 4) (JDict d))))
         \<and> (\<not> path_exists e SECRETS_REPORT_FILENAME st
               \<longrightarrow> dict_get d ''secrets'' = Some secrets_not_run)
         \<and> (\<not> path_exists e VULN_REPORT_FILENAME st
               \<longrightarrow> dict_get d ''vulnerabilities'' = Some vuln_not_run))"
proof -
  have 0: "fst (consolidated_data e st)
            = Inr [(''secrets'', secrets_not_run), (''vulnerabilities'', vuln_not_run)]"
    if "\<not> path_exists e SECRETS_REPORT_FILENAME st" "\<not> path_exists e VULN_REPORT_FILENAME st"
    using that
    by (simp add: consolidated_data_fst load_secrets_fst load_vulnerabilities_fst
          load_outcome_def path_exists_def)
  have 1: "fs (consolidate_reports e out st)
             = (fs st)(abspath (cwd e) out \<mapsto> File (json_dump e (Some 4) (JDict d)))"
    if "fst (consolidated_data e st) = Inr d" "can_write e (fs st) (abspath (cwd e) out)" for d
    using that by (simp add: consolidate_reports_fs)
  have 2: "dict_get d ''secrets'' = Some secrets_not_run"
    if "fst (consolidated_data e st) = Inr d" "\<not> path_exists e SECRETS_REPORT_FILENAME st" for d
    using that
    by (auto simp: consolidated_data_fst load_secrets_fst load_outcome_def path_exists_def
          intro: load_vulnerabilities_keeps_secrets split: sum.splits)
  have 3: "dict_get d ''vulnerabilities'' = Some vuln_not_run"
    if "fst (consolidated_data e st) = Inr d" "\<not> path_exists e VULN_REPORT_FILENAME st" for d
    using that
    by (auto simp: consolidated_data_fst load_secrets_fst load_vulnerabilities_fst
          path_exists_def dict_get_def split: sum.splits)
  from 0 1 2 3 show ?thesis by blast
qed

theorem absent_reports_get_placeholders_witness:
  "fst (consolidated_data sample_env st_no_reports)
     = Inr [(''secrets'', secrets_not_run), (''vulnerabilities'', vuln_not_run)]
   \<and> fs (consolidate_reports sample_env DEFAULT_OUTPUT st_no_reports)
       = (fs st_no_reports)([''work'', ''consolidated_report.json''] \<mapsto>
            File (sample_dump (Some 4)
              (JDict [(''secrets'', secrets_not_run), (''vulnerabilities'', vuln_not_run)])))
   \<and> dict_get [(''secrets'', secrets_not_run), (''vulnerabilities'', vuln_not_run)] ''secrets''
       = Some secrets_not_run
   \<and> dict_get [(''secrets'', secrets_not_run), (''vulnerabilities'', vuln_not_run)]
        ''vulnerabilities'' = Some vuln_not_run"
proof -
  have a: "\<not> path_exists sample_env SECRETS_REPORT_FILENAME st_no_reports"
    by (simp add: path_exists_def st_no_reports_def initial_state_def node_at_def)
  have b: "\<not> path_exists sample_env VULN_REPORT_FILENAME st_no_reports"
    by (simp add: path_exists_def st_no_reports_def initial_state_def node_at_def)
  have c: "can_write sample_env (fs st_no_reports) (abspath (cwd sample_env) DEFAULT_OUTPUT)"
    by (simp add: can_write_def st_no_reports_def initial_state_def node_at_def)
  show ?thesis
    using absent_reports_get_placeholders [of sample_env st_no_reports DEFAULT_OUTPUT] a b c
    by simp
qed

text \<open>The claim as stated asks for the object \<open>spec_not_run\<close>. Without any raw report
  the entry for the secrets is another object.\<close>

theorem not_run_placeholder_counterexample:
  "\<not> path_exists sample_env SECRETS_REPORT_FILENAME st_no_reports
   \<and> fst (consolidated_data sample_env st_no_reports)
       = Inr [(''secrets'', secrets_not_run), (''vulnerabilities'', vuln_not_run)]
   \<and> dict_get [(''secrets'', secrets_not_run), (''vulnerabilities'', vuln_not_run)] ''secrets''
       \<noteq> Some spec_not_run"
  by (simp add: consolidated_data_fst load_secrets_fst load_vulnerabilities_fst load_outcome_def
        path_exists_def st_no_reports_def initial_state_def node_at_def dict_get_def
        secrets_not_run_def spec_not_run_def)

lemma can_write_after_write:
  "can_write e f p \<Longrightarrow> can_write e (f(p \<mapsto> File c)) p"
  by (auto simp: can_write_def node_at_def split: if_splits)

lemma consolidated_data_after_write:
  assumes "p \<noteq> abspath (cwd e) SECRETS_REPORT_FILENAME" "p \<noteq> abspath (cwd e) VULN_REPORT_FILENAME"
      and "fs st' = (fs st)(p \<mapsto> n)"
  shows "fst (consolidated_data e st') = fst (consolidated_data e st)"
  by (rule consolidated_data_cong) (use assms in \<open>simp_all add: node_at_def\<close>)

text \<open>
  Claim C7, as the script has it. When the output path names neither raw report, a second
  consolidation leaves the whole file system as the first one left it (so the consolidated
  file is the same, byte for byte), and the two raw reports are as they were before.
\<close>

theorem consolidate_idempotent_read_only:
  assumes "abspath (cwd e) out \<noteq> abspath (cwd e) SECRETS_REPORT_FILENAME"
      and "abspath (cwd e) out \<noteq> abspath (cwd e) VULN_REPORT_FILENAME"
  shows "fs (consolidate_reports e out (consolidate_reports e out st))
           = fs (consolidate_reports e out st)
         \<and> fs (consolidate_reports e out st) (abspath (cwd e) SECRETS_REPORT_FILENAME)
             = fs st (abspath (cwd e) SECRETS_REPORT_FILENAME)
         \<and> fs (consolidate_reports e out st) (abspath (cwd e) VULN_REPORT_FILENAME)
             = fs st (abspath (cwd e) VULN_REPORT_FILENAME)"
proof -
  let ?st1 = "consolidate_reports e out st"
  let ?p = "abspath (cwd e) out"
  have raw: "fs ?st1 (abspath (cwd e) SECRETS_REPORT_FILENAME)
               = fs st (abspath (cwd e) SECRETS_REPORT_FILENAME)"
            "fs ?st1 (abspath (cwd e) VULN_REPORT_FILENAME)
               = fs st (abspath (cwd e) VULN_REPORT_FILENAME)"
    using assms by (simp_all add: consolidate_reports_fs split: sum.split)
  have same: "fst (consolidated_data e ?st1) = fst (consolidated_data e st)"
    by (rule consolidated_data_cong) (simp_all add: node_at_def raw)
  have "fs (consolidate_reports e out ?st1) = fs ?st1"
  proof (cases "fst (consolidated_data e st)")
    case (Inl x)
    with same show ?thesis by (simp add: consolidate_reports_fs [of e out ?st1])
  next
    case (Inr d)
    show ?thesis
    proof (cases "can_write e (fs st) ?p")
      case True
      with Inr have 1: "fs ?st1 = (fs st)(?p \<mapsto> File (json_dump e (Some 4) (JDict d)))"
        by (simp add: consolidate_reports_fs)
      then have "can_write e (fs ?st1) ?p"
        using True can_write_after_write by simp
      with same Inr 1 show ?thesis
        by (simp add: consolidate_reports_fs [of e out ?st1])
    next
      case False
      with Inr have 1: "fs ?st1 = fs st" by (simp add: consolidate_reports_fs)
      with same Inr False show ?thesis
        by (simp add: consolidate_reports_fs [of e out ?st1])
    qed
  qed
  with raw show ?thesis by simp
qed

theorem consolidate_idempotent_read_only_witness:
  "fs (consolidate_reports sample_env DEFAULT_OUTPUT
         (consolidate_reports sample_env DEFAULT_OUTPUT st_empty_secrets))
     = fs (consolidate_reports sample_env DEFAULT_OUTPUT st_empty_secrets)
   \<and> fs (consolidate_reports sample_env DEFAULT_OUTPUT st_empty_secrets)
        [''work'', ''secrets_report.json''] = Some (File ''{}'')
   \<and> fs (consolidate_reports sample_env DEFAULT_OUTPUT st_empty_secrets)
        [''work'', ''vulnerability_report.json''] = None"
  using consolidate_idempotent_read_only [of sample_env DEFAULT_OUTPUT st_empty_secrets]
  by (simp add: st_empty_secrets_def initial_state_def)

text \<open>The claim as stated holds for every output path. With the secrets report as the
  output path, consolidation replaces that raw report.\<close>

theorem consolidate_overwrites_raw_report_counterexample:
  "fs st_empty_secrets [''work'', ''secrets_report.json''] = Some (File ''{}'')
   \<and> fs (consolidate_reports sample_env SECRETS_REPORT_FILENAME st_empty_secrets)
        [''work'', ''secrets_report.json'']
       = Some (File (sample_dump (Some 4)
           (JDict [(''secrets'', JDict []), (''vulnerabilities'', vuln_not_run)])))
   \<and> sample_dump (Some 4) (JDict [(''secrets'', JDict []), (''vulnerabilities'', vuln_not_run)])
       \<noteq> ''{}''"
  by (simp add: consolidate_reports_fs consolidated_data_fst load_secrets_fst
        load_vulnerabilities_fst load_outcome_def can_write_def
        st_empty_secrets_def initial_state_def node_at_def sample_load_def strip_def is_space_def)

text \<open>The load of the secrets report has no handler of its own: when it cannot be decoded,
  nothing is written at all.\<close>

lemma secrets_decode_failure_aborts:
  assumes "node_at (fs st) (abspath (cwd e) SECRETS_REPORT_FILENAME) = Some (File txt)"
      and "\<not> os_refuses e (OpenRead (abspath (cwd e) SECRETS_REPORT_FILENAME))"
      and "json_load e txt = Inl JSONDecodeError"
  shows "fs (consolidate_reports e out st) = fs st"
  using assms
  by (simp add: consolidate_reports_fs consolidated_data_fst load_secrets_fst load_outcome_def)

lemma secrets_decode_failure_aborts_sample:
  "fs (consolidate_reports sample_env DEFAULT_OUTPUT st_bad_secrets) = fs st_bad_secrets"
  by (rule secrets_decode_failure_aborts [of st_bad_secrets sample_env "''not json''"])
     (simp_all add: st_bad_secrets_def initial_state_def node_at_def sample_load_def strip_def
        is_space_def)

subsection \<open>Output files of the adapters\<close>

text \<open>
  Claim C3, as the script has it. The output file named on each command line does not depend
  on the target. The secret scanner is given \<^verbatim>\<open>secrets_report.json\<close>; the vulnerability
  scanner and the TLS auditor are both given \<^verbatim>\<open>vulnerability_report.json\<close>. The two names
  differ, also as paths in any working directory.
\<close>

theorem adapter_output_files:
  "secrets_output t1 = SECRETS_REPORT_FILENAME
   \<and> nuclei_output t2 = VULN_REPORT_FILENAME
   \<and> testssl_output t3 = VULN_REPORT_FILENAME
   \<and> SECRETS_REPORT_FILENAME \<noteq> VULN_REPORT_FILENAME
   \<and> abspath wd SECRETS_REPORT_FILENAME \<noteq> abspath wd VULN_REPORT_FILENAME"
  by (simp add: secrets_output_def nuclei_output_def testssl_output_def secrets_command_def
        nuclei_command_def testssl_command_def SECRETS_REPORT_FILENAME_def
        VULN_REPORT_FILENAME_def abspath_def norm_step_def)

text \<open>The claim as stated asks for three pairwise distinct files. Two of them are the
  same.\<close>

theorem shared_vulnerability_file_counterexample:
  "nuclei_output ''https://example.com'' = testssl_output ''https://example.com''"
  by (simp add: nuclei_output_def testssl_output_def nuclei_command_def testssl_command_def)

subsection \<open>Event traces\<close>

lemma emits_refl [simp]: "emits st st A"
  by (simp add: emits_def)

lemma emits_trans: "emits st st1 A \<Longrightarrow> emits st1 st2 B \<Longrightarrow> emits st st2 (A \<union> B)"
  by (auto simp: emits_def)

lemma emits_mono: "emits st st' A \<Longrightarrow> A \<subseteq> B \<Longrightarrow> emits st st' B"
  by (auto simp: emits_def)

lemma emits_step:
  "emits st st1 A \<Longrightarrow> emits st1 st2 B \<Longrightarrow> A \<subseteq> C \<Longrightarrow> B \<subseteq> C \<Longrightarrow> emits st st2 C"
  by (meson emits_trans emits_mono Un_least)

lemma emits_filter:
  "emits st st' A \<Longrightarrow> \<forall>x\<in>A. \<not> P x \<Longrightarrow> filter P (events st') = filter P (events st)"
  by (auto simp: emits_def filter_empty_conv subset_iff)

lemma emits_prefix: "emits st st' A \<Longrightarrow> prefix (events st) (events st')"
  by (auto simp: emits_def)

lemma emits_log [simp]: "emits st (log l ps st') A = emits st st' A"
  by (simp add: emits_def)

lemma emits_log_left [simp]: "emits (log l ps st) st' A = emits st st' A"
  by (simp add: emits_def)

lemma emits_snoc [simp]: "events st' = events st @ [x] \<Longrightarrow> emits st st' A = (x \<in> A)"
  by (simp add: emits_def)

lemma subprocess_run_events [simp]:
  "events (snd (subprocess_run e argv wd chk st)) = events st @ [Exec argv wd]"
  by (simp add: subprocess_run_def Let_def split: prod.split proc.split)

lemma write_file_events [simp]:
  "events (snd (write_file e s txt st)) = events st @ [OpenWrite (abspath (cwd e) s)]"
  by (simp add: write_file_def Let_def)

lemma makedirs_events [simp]:
  "events (snd (makedirs e s st)) = events st @ [MakeDirs (abspath (cwd e) s)]"
  by (simp add: makedirs_def Let_def)

lemma rmtree_events [simp]:
  "events (snd (rmtree e s st)) = events st @ [RmTree (abspath (cwd e) s)]"
  by (simp add: rmtree_def Let_def split: option.split node.split)

lemma is_git_repository_emits:
  "emits st (snd (is_git_repository e p st))
     {Exec [''git'', ''rev-parse'', ''--is-inside-work-tree''] (Some p)}"
  by (simp add: is_git_repository_def split_beta split: sum.split exn.split)

lemma clone_repository_emits:
  "emits st (snd (clone_repository e url dest st)) {Exec [''git'', ''clone'', url, dest] None}"
  by (simp add: clone_repository_def split_beta split: sum.split exn.split)

lemma scan_secrets_failed_emits [simp]:
  "emits st (snd (scan_secrets_failed x st')) A = emits st st' A"
  by (simp add: scan_secrets_failed_def split: exn.split)

lemma scan_secrets_emits:
  "emits st (snd (scan_secrets e t st))
     {Exec (secrets_command t) None, OpenWrite (abspath (cwd e) SECRETS_REPORT_FILENAME)}"
  by (simp add: scan_secrets_def split_beta split: sum.split)
     (simp add: emits_def)

lemma run_nuclei_emits: "emits st (snd (run_nuclei e t st)) {Exec (nuclei_command t) None}"
  by (simp add: run_nuclei_def Let_def split_beta split: sum.split exn.split)

lemma run_testssl_emits: "emits st (snd (run_testssl e t st)) {Exec (testssl_command t) None}"
  by (simp add: run_testssl_def split_beta split: sum.split exn.split)

lemma check_git_emits:
  "emits st (snd (check_git e p st))
     {Exec [''git'', ''rev-parse'', ''--is-inside-work-tree''] (Some p)}"
  using is_git_repository_emits [of st e p]
  by (simp add: check_git_def split_beta split: bool.split)

lemma resolve_target_emits:
  "emits st (snd (snd (resolve_target e t st))) (resolve_ops e t)"
proof (cases "is_url t")
  case False
  then show ?thesis
    using check_git_emits [of "log INFO [S (''Target '' @ apostrophe), S t,
                           S (apostrophe @ '' is a local directory - using it directly.'')] st" e t]
    by (simp add: resolve_target_def resolve_ops_def split_beta)
next
  case True
  let ?st0 = "log INFO [S (''Target '' @ apostrophe), S t,
                           S (apostrophe @ '' looks like a remote URL - attempting to clone.'')] st"
  let ?st1 = "snd (makedirs e TEMP_REPO ?st0)"
  let ?st2 = "snd (clone_repository e t TEMP_REPO ?st1)"
  let ?st3 = "snd (check_git e TEMP_REPO ?st2)"
  have 1: "emits st ?st1 (resolve_ops e t)"
    using True by (simp add: resolve_ops_def)
  have 2: "emits st ?st2 (resolve_ops e t)"
    by (rule emits_step [OF 1 clone_repository_emits]) (simp_all add: resolve_ops_def True)
  have 3: "emits st ?st3 (resolve_ops e t)"
    by (rule emits_step [OF 2 check_git_emits]) (simp_all add: resolve_ops_def True)
  show ?thesis
    using True 1 2 3
    by (simp add: resolve_target_def split_beta split: sum.split)
qed

lemma secrets_step_emits:
  "emits st (secrets_step e p ts st)
     {Exec (secrets_command p) None, OpenWrite (abspath (cwd e) SECRETS_REPORT_FILENAME)}"
  using scan_secrets_emits [of st e p] by (simp add: secrets_step_def)

lemma nuclei_step_emits:
  "emits st (nuclei_step e t ts st) (if is_url t then {Exec (nuclei_command t) None} else {})"
  using run_nuclei_emits [of st e t] by (simp add: nuclei_step_def)

lemma testssl_step_emits:
  "emits st (testssl_step e t ts st) (if is_url t then {Exec (testssl_command t) None} else {})"
  using run_testssl_emits [of st e t] by (simp add: testssl_step_def)

lemma run_tools_emits: "emits st (run_tools e t p tools st) (tool_ops e t p)"
proof -
  let ?ts = "effective_tools tools"
  have 1: "emits st (secrets_step e p ?ts st) (tool_ops e t p)"
    by (rule emits_mono [OF secrets_step_emits]) (simp add: tool_ops_def)
  have 2: "emits st (nuclei_step e t ?ts (secrets_step e p ?ts st)) (tool_ops e t p)"
    by (rule emits_step [OF 1 nuclei_step_emits]) (simp_all add: tool_ops_def)
  have 3: "emits st (testssl_step e t ?ts (nuclei_step e t ?ts (secrets_step e p ?ts st)))
             (tool_ops e t p)"
    by (rule emits_step [OF 2 testssl_step_emits]) (simp_all add: tool_ops_def)
  then show ?thesis by (simp add: run_tools_def Let_def)
qed

lemma cleanup_emits:
  "emits st (cleanup e td st) (case td of None \<Rightarrow> {} | Some d \<Rightarrow> {RmTree (abspath (cwd e) d)})"
  by (simp add: cleanup_def split_beta split: option.split sum.split)

lemma resolve_target_temp_dir:
  "fst (snd (resolve_target e t st)) = (if is_url t then Some TEMP_REPO else None)"
  by (simp add: resolve_target_def split_beta split: sum.split)

lemma perform_scan_body_temp_dir:
  "fst (snd (perform_scan_body e t tools st)) = (if is_url t then Some TEMP_REPO else None)"
  using resolve_target_temp_dir [of e t st]
  by (simp add: perform_scan_body_def split_beta split: resolution.split)

lemma perform_scan_body_emits:
  "emits st (snd (snd (perform_scan_body e t tools st)))
     (resolve_ops e t \<union>
      (if resolved (fst (resolve_target e t st))
       then tool_ops e t (case fst (resolve_target e t st) of Resolved p \<Rightarrow> p | _ \<Rightarrow> [])
       else {}))"
proof (cases "fst (resolve_target e t st)")
  case (Resolved p)
  have "emits st (run_tools e t p tools (snd (snd (resolve_target e t st))))
          (resolve_ops e t \<union> tool_ops e t p)"
    by (rule emits_trans [OF resolve_target_emits run_tools_emits])
  with Resolved show ?thesis
    by (simp add: perform_scan_body_def split_beta resolved_def)
next
  case Rejected
  with resolve_target_emits [of st e t] show ?thesis
    by (simp add: perform_scan_body_def split_beta resolved_def)
next
  case (Raised x)
  with resolve_target_emits [of st e t] show ?thesis
    by (simp add: perform_scan_body_def split_beta resolved_def)
qed

lemma perform_scan_fst:
  "fst (perform_scan e t tools st) = fst (perform_scan_body e t tools st)"
  by (simp add: perform_scan_def split_beta)

lemma perform_scan_snd:
  "snd (perform_scan e t tools st)
     = cleanup e (fst (snd (perform_scan_body e t tools st)))
         (snd (snd (perform_scan_body e t tools st)))"
  by (simp add: perform_scan_def split_beta)

lemma perform_scan_body_fst:
  "fst (perform_scan_body e t tools st) = resolved (fst (resolve_target e t st))"
  by (simp add: perform_scan_body_def split_beta resolved_def split: resolution.split)

lemma perform_scan_emits: "emits st (snd (perform_scan e t tools st)) (scan_ops e t st)"
proof -
  have c: "emits (snd (snd (perform_scan_body e t tools st))) (snd (perform_scan e t tools st))
             (if is_url t then {RmTree (abspath (cwd e) TEMP_REPO)} else {})"
    using cleanup_emits [of "snd (snd (perform_scan_body e t tools st))" e
            "fst (snd (perform_scan_body e t tools st))"]
    by (cases "is_url t") (simp_all add: perform_scan_snd perform_scan_body_temp_dir)
  show ?thesis
    unfolding scan_ops_def by (rule emits_trans [OF perform_scan_body_emits c])
qed

subsection \<open>Results depend on the file system only\<close>

lemma subprocess_run_cong:
  "fs st' = fs st \<Longrightarrow>
     fst (subprocess_run e argv wd chk st') = fst (subprocess_run e argv wd chk st)
     \<and> fs (snd (subprocess_run e argv wd chk st')) = fs (snd (subprocess_run e argv wd chk st))"
  by (simp add: subprocess_run_def Let_def split: prod.split proc.split)

lemma isdir_cong: "fs st' = fs st \<Longrightarrow> isdir e s st' = isdir e s st"
  by (simp add: isdir_def)

lemma is_git_repository_cong:
  assumes "fs st' = fs st"
  shows "fst (is_git_repository e p st') = fst (is_git_repository e p st)
         \<and> fs (snd (is_git_repository e p st')) = fs (snd (is_git_repository e p st))"
  using subprocess_run_cong [OF assms, of e "[''git'', ''rev-parse'', ''--is-inside-work-tree'']"
          "Some p" False] isdir_cong [OF assms, of e "path_join p ''.git''"] assms
  by (simp add: is_git_repository_def split_beta split: sum.split exn.split)

lemma check_git_cong:
  assumes "fs st' = fs st"
  shows "fst (check_git e p st') = fst (check_git e p st)
         \<and> fs (snd (check_git e p st')) = fs (snd (check_git e p st))"
  using is_git_repository_cong [OF assms, of e p]
  by (simp add: check_git_def split_beta split: bool.split)

lemma check_git_fst:
  "fst (check_git e p st) = (if fst (is_git_repository e p st) then Resolved p else Rejected)"
  by (simp add: check_git_def split_beta split: bool.split)

lemma makedirs_cong:
  "fs st' = fs st \<Longrightarrow>
     fst (makedirs e s st') = fst (makedirs e s st)
     \<and> fs (snd (makedirs e s st')) = fs (snd (makedirs e s st))"
  by (auto simp: makedirs_def Let_def)

lemma clone_repository_cong:
  assumes "fs st' = fs st"
  shows "fst (clone_repository e u d st') = fst (clone_repository e u d st)
         \<and> fs (snd (clone_repository e u d st')) = fs (snd (clone_repository e u d st))"
  using subprocess_run_cong [of "log INFO [S ''Cloning repository: '', S u, S '' to '', S d] st'"
          "log INFO [S ''Cloning repository: '', S u, S '' to '', S d] st" e
          "[''git'', ''clone'', u, d]" None True] assms
  by (simp add: clone_repository_def split_beta split: sum.split exn.split)

text \<open>Resolution, read off the primitives: a remote URL needs the workspace, the clone and
  the repository check; anything else needs to be a directory that passes the check.\<close>

lemma resolve_target_resolved:
  "resolved (fst (resolve_target e t st)) = resolution_succeeds e t st"
proof (cases "is_url t")
  case False
  then show ?thesis
    using is_git_repository_cong [of "log INFO [S (''Target '' @ apostrophe), S t,
                S (apostrophe @ '' is a local directory - using it directly.'')] st" st e t]
    by (simp add: resolve_target_def resolution_succeeds_def split_beta resolved_def check_git_fst)
next
  case True
  let ?st0 = "log INFO [S (''Target '' @ apostrophe), S t,
                S (apostrophe @ '' looks like a remote URL - attempting to clone.'')] st"
  let ?a' = "makedirs e TEMP_REPO ?st0" and ?a = "makedirs e TEMP_REPO st"
  let ?b' = "clone_repository e t TEMP_REPO (snd ?a')"
  let ?b = "clone_repository e t TEMP_REPO (snd ?a)"
  have m: "fst ?a' = fst ?a" "fs (snd ?a') = fs (snd ?a)"
    using makedirs_cong [of ?st0 st e TEMP_REPO] by simp_all
  have c: "fst ?b' = fst ?b" "fs (snd ?b') = fs (snd ?b)"
    using clone_repository_cong [OF m(2), of e t TEMP_REPO] by simp_all
  have g: "fst (is_git_repository e TEMP_REPO (snd ?b'))
             = fst (is_git_repository e TEMP_REPO (snd ?b))"
    using is_git_repository_cong [OF c(2), of e TEMP_REPO] by simp
  have l: "resolved (fst (resolve_target e t st))
             = (case fst ?a' of Inl x \<Rightarrow> False
                | Inr u \<Rightarrow> (case fst ?b' of Inl x \<Rightarrow> False
                           | Inr u' \<Rightarrow> fst (is_git_repository e TEMP_REPO (snd ?b'))))"
    using True
    by (simp add: resolve_target_def split_beta resolved_def check_git_fst split: sum.split)
  have r: "resolution_succeeds e t st
             = (case fst ?a of Inl x \<Rightarrow> False
                | Inr u \<Rightarrow> (case fst ?b of Inl x \<Rightarrow> False
                           | Inr u' \<Rightarrow> fst (is_git_repository e TEMP_REPO (snd ?b))))"
    using True
    by (simp add: resolution_succeeds_def split_beta split: sum.split)
  show ?thesis
    unfolding l r m(1) c(1) g ..
qed

subsection \<open>The outcome of a scan\<close>

lemma sample_target_paths [simp]:
  "abspath [''work''] ''repo'' = [''work'', ''repo'']"
  "abspath [''work''] (path_join ''repo'' ''.git'') = [''work'', ''repo'', ''.git'']"
  "abspath [''work''] ''docs'' = [''work'', ''docs'']"
  "abspath [''work''] (path_join ''docs'' ''.git'') = [''work'', ''docs'', ''.git'']"
  "abspath [''work''] (path_join TEMP_REPO ''.git'') = [''work'', ''temp_repo'', ''.git'']"
  by (simp_all add: abspath_def norm_step_def path_join_def TEMP_REPO_def)

lemma broken_scanners_env_fields [simp]:
  "cwd broken_scanners_env = [''work'']"
  "os_refuses broken_scanners_env = os_refuses sample_env"
  "run_process broken_scanners_env argv wd f =
     (if take 1 argv = [''git''] then sample_run argv wd f else (ProcRaised OSError, f))"
  by (simp_all add: broken_scanners_env_def sample_env_def)

lemma perform_scan_result:
  "fst (perform_scan e t tools st) = resolution_succeeds e t st"
  by (simp add: perform_scan_fst perform_scan_body_fst resolve_target_resolved)





text \<open>The empty target and a target through a directory that does not exist are no
  directories, also when the working directory is a repository: the scan fails and starts
  nothing.\<close>

lemma invalid_targets_rejected:
  "perform_scan sample_env [] None st_cwd_repo
     = (False, log ERROR [S ''Invalid target: '', S [],
                 S ''. Must be a valid directory path or a remote git URL.''] st_cwd_repo)"
  "perform_scan sample_env ''missing/..'' None st_cwd_repo
     = (False, log ERROR [S ''Invalid target: '', S ''missing/..'',
                 S ''. Must be a valid directory path or a remote git URL.''] st_cwd_repo)"
  by (simp_all add: perform_scan_def perform_scan_body_def resolve_target_def cleanup_def
        is_url_def isdir_def lookup_def norm_step_def node_at_def st_cwd_repo_def
        initial_state_def)

subsection \<open>Local repositories\<close>

lemma local_resolution:
  assumes "\<not> is_url t" and "isdir e t st"
  shows "fst (resolve_target e t st)
           = (if fst (is_git_repository e t st) then Resolved t else Rejected)"
  using assms is_git_repository_cong [of "log INFO [S (''Target '' @ apostrophe), S t,
                S (apostrophe @ '' is a local directory - using it directly.'')] st" st e t]
  by (simp add: resolve_target_def split_beta check_git_fst)

lemma local_scan_ops_no_workspace:
  "\<not> is_url t \<Longrightarrow> \<forall>x\<in>scan_ops e t st. \<not> workspace_op x"
  by (simp add: scan_ops_def resolve_ops_def tool_ops_def workspace_op_def secrets_command_def)

text \<open>
  Claim C8. A target is a local directory when it does not begin with \<^verbatim>\<open>http://\<close> or
  \<^verbatim>\<open>https://\<close> and names an existing directory. When such a target passes the repository
  check, resolution succeeds with the target string itself as the path to scan, the
  variable \<^verbatim>\<open>temp_dir\<close> stays unset, the scan returns true, and the whole scan neither
  makes nor removes a directory nor starts a clone.
\<close>

theorem local_repository_scanned_in_place:
  assumes "\<not> is_url target"
      and "isdir e target st"
      and "fst (is_git_repository e target st)"
  shows "fst (resolve_target e target st) = Resolved target
         \<and> fst (snd (resolve_target e target st)) = None
         \<and> fst (perform_scan e target tools st)
         \<and> filter workspace_op (events (snd (perform_scan e target tools st)))
             = filter workspace_op (events st)"
proof -
  have 1: "fst (resolve_target e target st) = Resolved target"
    using assms by (simp add: local_resolution)
  have 2: "fst (snd (resolve_target e target st)) = None"
    using assms(1) by (simp add: resolve_target_temp_dir)
  have 3: "fst (perform_scan e target tools st)"
    using assms by (simp add: perform_scan_result resolution_succeeds_def)
  have 4: "filter workspace_op (events (snd (perform_scan e target tools st)))
             = filter workspace_op (events st)"
    by (rule emits_filter [OF perform_scan_emits]) (rule local_scan_ops_no_workspace [OF assms(1)])
  from 1 2 3 4 show ?thesis by simp
qed

theorem local_repository_scanned_in_place_witness:
  "\<not> is_url ''repo'' \<and> isdir sample_env ''repo'' st_local_repo
   \<and> fst (is_git_repository sample_env ''repo'' st_local_repo)
   \<and> fst (resolve_target sample_env ''repo'' st_local_repo) = Resolved ''repo''
   \<and> fst (snd (resolve_target sample_env ''repo'' st_local_repo)) = None
   \<and> fst (perform_scan sample_env ''repo'' None st_local_repo)
   \<and> filter workspace_op (events (snd (perform_scan sample_env ''repo'' None st_local_repo))) = []"
  using local_repository_scanned_in_place [of "''repo''" sample_env st_local_repo None]
  by (simp add: is_url_def isdir_def lookup_def norm_step_def path_join_def
        is_git_repository_def node_at_def st_local_repo_def initial_state_def)

subsection \<open>What a scan keeps in the file system\<close>

lemma subprocess_run_keeps:
  "procs_keep e P \<Longrightarrow> P (fs st) \<Longrightarrow> P (fs (snd (subprocess_run e argv wd chk st)))"
  by (simp add: subprocess_run_def procs_keep_def split_beta Let_def split: proc.split)

lemma write_secrets_keeps:
  "writes_keep e P \<Longrightarrow> P (fs st) \<Longrightarrow>
     P (fs (snd (write_file e SECRETS_REPORT_FILENAME c st)))"
  by (simp add: write_file_fs writes_keep_def)

lemma is_git_repository_keeps:
  "procs_keep e P \<Longrightarrow> P (fs st) \<Longrightarrow> P (fs (snd (is_git_repository e p st)))"
  using subprocess_run_keeps [of e P st "[''git'', ''rev-parse'', ''--is-inside-work-tree'']"
          "Some p" False]
  by (simp add: is_git_repository_def split_beta split: sum.split exn.split)

lemma check_git_keeps:
  "procs_keep e P \<Longrightarrow> P (fs st) \<Longrightarrow> P (fs (snd (check_git e p st)))"
  using is_git_repository_keeps [of e P st p]
  by (simp add: check_git_def split_beta split: bool.split)

lemma clone_repository_keeps:
  "procs_keep e P \<Longrightarrow> P (fs st) \<Longrightarrow> P (fs (snd (clone_repository e u d st)))"
  using subprocess_run_keeps [of e P "log INFO [S ''Cloning repository: '', S u, S '' to '', S d] st"
          "[''git'', ''clone'', u, d]" None True]
  by (simp add: clone_repository_def split_beta split: sum.split exn.split)

lemma scan_secrets_failed_fs [simp]: "fs (snd (scan_secrets_failed x st)) = fs st"
  by (simp add: scan_secrets_failed_def split: exn.split)

lemma scan_secrets_keeps:
  assumes "procs_keep e P" and "writes_keep e P" and "P (fs st)"
  shows "P (fs (snd (scan_secrets e t st)))"
proof -
  let ?r = "subprocess_run e (secrets_command t) None False
              (log INFO [S ''Scanning for secrets in: '', S t] st)"
  have 1: "P (fs (snd ?r))"
    using subprocess_run_keeps [OF assms(1), of "log INFO [S ''Scanning for secrets in: '', S t] st"]
      assms(3) by simp
  have 2: "P (fs (snd (write_file e SECRETS_REPORT_FILENAME c
                         (log INFO [S ''No secrets found in the repository.''] (snd ?r)))))" for c
    using write_secrets_keeps [OF assms(2), of "log INFO [S ''No secrets found in the repository.''] (snd ?r)"]
      1 by simp
  show ?thesis
    using 1 2 by (simp add: scan_secrets_def split_beta split: sum.split)
qed

lemma run_nuclei_keeps:
  "procs_keep e P \<Longrightarrow> P (fs st) \<Longrightarrow> P (fs (snd (run_nuclei e t st)))"
  using subprocess_run_keeps [of e P "log INFO [S ''Running Nuclei against: '', S t] st"
          "nuclei_command t" None False]
  by (simp add: run_nuclei_def Let_def split_beta split: sum.split exn.split)

lemma run_testssl_keeps:
  "procs_keep e P \<Longrightarrow> P (fs st) \<Longrightarrow> P (fs (snd (run_testssl e t st)))"
  using subprocess_run_keeps [of e P "log INFO [S ''Running testssl.sh against: '', S t] st"
          "testssl_command t" None False]
  by (simp add: run_testssl_def split_beta split: sum.split exn.split)

lemma secrets_step_keeps:
  "procs_keep e P \<Longrightarrow> writes_keep e P \<Longrightarrow> P (fs st) \<Longrightarrow> P (fs (secrets_step e p ts st))"
  by (simp add: secrets_step_def scan_secrets_keeps)

lemma nuclei_step_keeps:
  "procs_keep e P \<Longrightarrow> P (fs st) \<Longrightarrow> P (fs (nuclei_step e t ts st))"
  by (simp add: nuclei_step_def run_nuclei_keeps)

lemma testssl_step_keeps:
  "procs_keep e P \<Longrightarrow> P (fs st) \<Longrightarrow> P (fs (testssl_step e t ts st))"
  by (simp add: testssl_step_def run_testssl_keeps)

lemma run_tools_keeps:
  "procs_keep e P \<Longrightarrow> writes_keep e P \<Longrightarrow> P (fs st) \<Longrightarrow> P (fs (run_tools e t p tools st))"
  by (simp add: run_tools_def Let_def secrets_step_keeps nuclei_step_keeps testssl_step_keeps)

lemma resolve_target_keeps:
  assumes "procs_keep e P"
      and "is_url t \<Longrightarrow> \<forall>x. P (fs x) \<longrightarrow> P (fs (snd (makedirs e TEMP_REPO x)))"
      and "P (fs st)"
  shows "P (fs (snd (snd (resolve_target e t st))))"
proof (cases "is_url t")
  case False
  then show ?thesis
    using check_git_keeps [OF assms(1), of "log INFO [S (''Target '' @ apostrophe), S t,
                S (apostrophe @ '' is a local directory - using it directly.'')] st" t] assms(3)
    by (simp add: resolve_target_def split_beta)
next
  case True
  let ?st0 = "log INFO [S (''Target '' @ apostrophe), S t,
                S (apostrophe @ '' looks like a remote URL - attempting to clone.'')] st"
  let ?st1 = "snd (makedirs e TEMP_REPO ?st0)"
  let ?st2 = "snd (clone_repository e t TEMP_REPO ?st1)"
  let ?st3 = "snd (check_git e TEMP_REPO ?st2)"
  have 1: "P (fs ?st1)" using assms(2) [OF True] assms(3) by simp
  have 2: "P (fs ?st2)" by (rule clone_repository_keeps [OF assms(1) 1])
  have 3: "P (fs ?st3)" by (rule check_git_keeps [OF assms(1) 2])
  show ?thesis
    using True 1 2 3 by (simp add: resolve_target_def split_beta split: sum.split)
qed

lemma perform_scan_body_keeps:
  assumes "procs_keep e P" and "writes_keep e P"
      and "is_url t \<Longrightarrow> \<forall>x. P (fs x) \<longrightarrow> P (fs (snd (makedirs e TEMP_REPO x)))"
      and "P (fs st)"
  shows "P (fs (snd (snd (perform_scan_body e t tools st))))"
proof -
  have 1: "P (fs (snd (snd (resolve_target e t st))))"
    by (rule resolve_target_keeps [OF assms(1) assms(3) assms(4)])
  have 2: "P (fs (run_tools e t p tools (snd (snd (resolve_target e t st)))))" for p
    by (rule run_tools_keeps [OF assms(1) assms(2) 1])
  show ?thesis
    using 1 2 by (simp add: perform_scan_body_def split_beta split: resolution.split)
qed

subsection \<open>The workspace of a remote scan\<close>

lemma abspath_TEMP_REPO: "abspath wd TEMP_REPO = wd @ [''temp_repo'']"
  by (simp add: abspath_def norm_step_def TEMP_REPO_def)

lemma dir_writes_keep: "writes_keep e (\<lambda>f. node_at f p = Some Dir)"
  by (auto simp: writes_keep_def can_write_def node_at_def)

lemma dir_procs_keep: "tools_keep_dir e p \<Longrightarrow> procs_keep e (\<lambda>f. node_at f p = Some Dir)"
  by (simp add: tools_keep_dir_def procs_keep_def)

lemma makedirs_keeps_dir:
  "node_at (fs x) p = Some Dir \<longrightarrow> node_at (fs (snd (makedirs e s x))) p = Some Dir"
  by (simp add: makedirs_def Let_def node_at_def)

lemma makedirs_keeps_content:
  "node_at (fs st) (abspath (cwd e) s) = Some Dir \<Longrightarrow> prefix (abspath (cwd e) s) q \<Longrightarrow>
     fs (snd (makedirs e s st)) q = fs st q"
  by (auto simp: makedirs_def Let_def node_at_def split: if_splits dest: prefix_order.antisym)

lemma workspace_kept:
  assumes "tools_keep_dir e p" and "node_at (fs st) p = Some Dir"
  shows "node_at (fs (snd (snd (perform_scan_body e t tools st)))) p = Some Dir"
  by (rule perform_scan_body_keeps [where P = "\<lambda>f. node_at f p = Some Dir",
        OF dir_procs_keep [OF assms(1)] dir_writes_keep _ assms(2)])
     (simp add: makedirs_keeps_dir)

lemma cleanup_removes_dir:
  assumes "node_at (fs st) (abspath (cwd e) TEMP_REPO) = Some Dir"
      and "\<not> os_refuses e (RmTree (abspath (cwd e) TEMP_REPO))"
      and "prefix (abspath (cwd e) TEMP_REPO) q"
  shows "fs (cleanup e (Some TEMP_REPO) st) q = None"
  using assms
  by (simp add: cleanup_def path_exists_def rmtree_def Let_def TEMP_REPO_def)

lemma cleanup_leaves_no_dir:
  assumes "\<not> os_refuses e (RmTree (abspath (cwd e) TEMP_REPO))"
  shows "node_at (fs (cleanup e (Some TEMP_REPO) st)) (abspath (cwd e) TEMP_REPO) \<noteq> Some Dir"
  using assms
  by (simp add: cleanup_def path_exists_def rmtree_def Let_def node_at_def abspath_def
        norm_step_def TEMP_REPO_def split: option.split node.split)

lemma cleanup_refused:
  assumes "os_refuses e (RmTree (abspath (cwd e) TEMP_REPO))"
      and "path_exists e TEMP_REPO st"
  shows "cleanup e (Some TEMP_REPO) st
           = log ERROR [S ''Failed to remove temporary directory: '', S TEMP_REPO,
                        S ''.  Manual removal may be needed. Error: '', E OSError]
               (record_event (RmTree (abspath (cwd e) TEMP_REPO)) st)"
  using assms by (simp add: cleanup_def rmtree_def Let_def TEMP_REPO_def)

lemma perform_scan_url_snd:
  "is_url t \<Longrightarrow>
     snd (perform_scan e t tools st)
       = cleanup e (Some TEMP_REPO) (snd (snd (perform_scan_body e t tools st)))"
  by (simp add: perform_scan_snd perform_scan_body_temp_dir)

subsection \<open>The events of a remote scan\<close>

lemma emits_append: "emits st st' A \<Longrightarrow> prefix (events st0 @ xs) (events st) \<Longrightarrow>
    prefix (events st0 @ xs) (events st')"
  by (auto simp: emits_def prefix_def)

lemma perform_scan_body_url_events:
  assumes "is_url t"
  shows "prefix (events st @ [MakeDirs (abspath (cwd e) TEMP_REPO)])
           (events (snd (snd (perform_scan_body e t tools st))))
         \<and> (fst (makedirs e TEMP_REPO st) = Inr () \<longrightarrow>
              prefix (events st @ [MakeDirs (abspath (cwd e) TEMP_REPO),
                                   Exec [''git'', ''clone'', t, TEMP_REPO] None])
                (events (snd (snd (perform_scan_body e t tools st)))))"
proof -
  let ?st0 = "log INFO [S (''Target '' @ apostrophe), S t,
                S (apostrophe @ '' looks like a remote URL - attempting to clone.'')] st"
  let ?a = "makedirs e TEMP_REPO ?st0"
  let ?b = "clone_repository e t TEMP_REPO (snd ?a)"
  let ?c = "check_git e TEMP_REPO (snd ?b)"
  let ?m = "MakeDirs (abspath (cwd e) TEMP_REPO)"
  let ?g = "Exec [''git'', ''clone'', t, TEMP_REPO] None"
  have a: "events (snd ?a) = events st @ [?m]" by simp
  have b: "events (snd ?b) = events st @ [?m, ?g]"
    by (simp add: clone_repository_def split_beta split: sum.split exn.split)
  have c: "prefix (events st @ [?m, ?g]) (events (snd ?c))"
    by (rule emits_append [OF check_git_emits]) (simp only: b prefix_order.refl)
  have d: "prefix (events st @ [?m, ?g]) (events (run_tools e t p tools (snd ?c)))" for p
    by (rule emits_append [OF run_tools_emits c])
  have f: "fst ?a = fst (makedirs e TEMP_REPO st)"
    using makedirs_cong [of ?st0 st e TEMP_REPO] by simp
  have w: "prefix (events st @ [?m]) ys" if "prefix (events st @ [?m, ?g]) ys" for ys
    using that by (auto simp: prefix_def)
  show ?thesis
    using assms a b c d w [OF c] w [OF d]
    by (simp add: perform_scan_body_def resolve_target_def split_beta f [symmetric]
          split: sum.split resolution.split)
qed


lemma perform_scan_url_events:
  assumes "is_url t"
  shows "prefix (events st @ [MakeDirs (abspath (cwd e) TEMP_REPO)])
           (events (snd (perform_scan e t tools st)))
         \<and> (fst (makedirs e TEMP_REPO st) = Inr () \<longrightarrow>
              prefix (events st @ [MakeDirs (abspath (cwd e) TEMP_REPO),
                                   Exec [''git'', ''clone'', t, TEMP_REPO] None])
                (events (snd (perform_scan e t tools st))))"
  using perform_scan_body_url_events [OF assms, of st e tools]
    emits_append [OF cleanup_emits [of "snd (snd (perform_scan_body e t tools st))" e
                       "Some TEMP_REPO"], of st "[MakeDirs (abspath (cwd e) TEMP_REPO)]"]
    emits_append [OF cleanup_emits [of "snd (snd (perform_scan_body e t tools st))" e
                       "Some TEMP_REPO"], of st "[MakeDirs (abspath (cwd e) TEMP_REPO),
                                   Exec [''git'', ''clone'', t, TEMP_REPO] None]"]
  by (simp add: perform_scan_url_snd [OF assms])

lemma sample_tools_keep_workspace: "tools_keep_dir sample_env [''work'', ''temp_repo'']"
  by (simp add: tools_keep_dir_def sample_run_def node_at_def)

text \<open>
  Claim C10. For a remote URL the variable \<^verbatim>\<open>temp_dir\<close> is the fixed name
  \<^verbatim>\<open>temp_repo\<close>, which lies directly in the working directory. The scan begins by making
  that directory and, when that succeeds, clones into it. A directory that is already
  there is taken as it is, with what it holds. At the end the directory is removed with
  everything below it: when a directory of that name was there before the scan, no
  external process takes it away and the removal is not refused, nothing at or below that
  path is left, whoever put it there.
\<close>

theorem remote_scan_destroys_temp_repo:
  assumes "is_url target"
  shows "fst (snd (perform_scan_body e target tools st)) = Some TEMP_REPO
         \<and> abspath (cwd e) TEMP_REPO = cwd e @ [''temp_repo'']
         \<and> prefix (events st @ [MakeDirs (abspath (cwd e) TEMP_REPO)])
              (events (snd (perform_scan e target tools st)))
         \<and> (fst (makedirs e TEMP_REPO st) = Inr () \<longrightarrow>
              prefix (events st @ [MakeDirs (abspath (cwd e) TEMP_REPO),
                                   Exec [''git'', ''clone'', target, TEMP_REPO] None])
                (events (snd (perform_scan e target tools st))))
         \<and> (node_at (fs st) (abspath (cwd e) TEMP_REPO) = Some Dir
              \<and> prefix (abspath (cwd e) TEMP_REPO) q \<longrightarrow>
              fs (snd (makedirs e TEMP_REPO st)) q = fs st q)
         \<and> (node_at (fs st) (abspath (cwd e) TEMP_REPO) = Some Dir
              \<and> tools_keep_dir e (abspath (cwd e) TEMP_REPO)
              \<and> \<not> os_refuses e (RmTree (abspath (cwd e) TEMP_REPO))
              \<and> prefix (abspath (cwd e) TEMP_REPO) q \<longrightarrow>
              fs (snd (perform_scan e target tools st)) q = None)"
proof -
  let ?p = "abspath (cwd e) TEMP_REPO"
  have 1: "fst (snd (perform_scan_body e target tools st)) = Some TEMP_REPO"
    using assms by (simp add: perform_scan_body_temp_dir)
  have 2: "fs (snd (perform_scan e target tools st)) q = None"
    if "node_at (fs st) ?p = Some Dir" "tools_keep_dir e ?p" "\<not> os_refuses e (RmTree ?p)"
       "prefix ?p q"
    unfolding perform_scan_url_snd [OF assms]
    by (rule cleanup_removes_dir [OF workspace_kept [OF that(2) that(1)] that(3) that(4)])
  show ?thesis
    using 1 2 perform_scan_url_events [OF assms, of st e tools]
      makedirs_keeps_content [of st e TEMP_REPO q]
    by (simp add: abspath_TEMP_REPO)
qed

theorem remote_scan_destroys_temp_repo_witness:
  "is_url ''https://example.com/app.git''
   \<and> fs st_old_workspace [''work'', ''temp_repo'', ''notes.txt''] = Some (File ''keep me'')
   \<and> node_at (fs st_old_workspace) [''work'', ''temp_repo''] = Some Dir
   \<and> tools_keep_dir sample_env [''work'', ''temp_repo'']
   \<and> fst (makedirs sample_env TEMP_REPO st_old_workspace) = Inr ()
   \<and> fs (snd (makedirs sample_env TEMP_REPO st_old_workspace))
        [''work'', ''temp_repo'', ''notes.txt''] = Some (File ''keep me'')
   \<and> prefix [MakeDirs [''work'', ''temp_repo''],
              Exec [''git'', ''clone'', ''https://example.com/app.git'', TEMP_REPO] None]
        (events (snd (perform_scan sample_env ''https://example.com/app.git'' None
                        st_old_workspace)))
   \<and> fs (snd (perform_scan sample_env ''https://example.com/app.git'' None st_old_workspace))
        [''work'', ''temp_repo'', ''notes.txt''] = None"
  using remote_scan_destroys_temp_repo
          [of "''https://example.com/app.git''" sample_env None st_old_workspace
              "[''work'', ''temp_repo'', ''notes.txt'']"]
        sample_tools_keep_workspace
  by (simp add: is_url_def makedirs_def Let_def is_file_def node_at_def record_event_def
        st_old_workspace_def initial_state_def)

subsection \<open>A removal that fails\<close>

lemma refusing_removal_fields [simp]:
  "cwd (refusing_removal e) = cwd e"
  "json_load (refusing_removal e) = json_load e"
  "json_dump (refusing_removal e) = json_dump e"
  "run_process (refusing_removal e) = run_process e"
  "os_refuses (refusing_removal e) (RmTree p)"
  "os_refuses (refusing_removal e) (MakeDirs p) = os_refuses e (MakeDirs p)"
  "os_refuses (refusing_removal e) (OpenWrite p) = os_refuses e (OpenWrite p)"
  "os_refuses (refusing_removal e) (OpenRead p) = os_refuses e (OpenRead p)"
  by (simp_all add: refusing_removal_def)

lemma refusing_removal_primitives:
  "makedirs (refusing_removal e) = makedirs e"
  "subprocess_run (refusing_removal e) = subprocess_run e"
  "isdir (refusing_removal e) = isdir e"
  "path_exists (refusing_removal e) = path_exists e"
  "write_file (refusing_removal e) = write_file e"
  by (intro ext, simp add: makedirs_def subprocess_run_def isdir_def path_exists_def
        write_file_def Let_def)+

lemma refusing_removal_functions:
  "is_git_repository (refusing_removal e) = is_git_repository e"
  "clone_repository (refusing_removal e) = clone_repository e"
  "scan_secrets (refusing_removal e) = scan_secrets e"
  "run_nuclei (refusing_removal e) = run_nuclei e"
  "run_testssl (refusing_removal e) = run_testssl e"
  unfolding is_git_repository_def [abs_def] clone_repository_def [abs_def]
    scan_secrets_def [abs_def] run_nuclei_def [abs_def] run_testssl_def [abs_def]
    refusing_removal_primitives refusing_removal_fields
  by (rule refl)+

lemma refusing_removal_steps:
  "check_git (refusing_removal e) = check_git e"
  "secrets_step (refusing_removal e) = secrets_step e"
  "nuclei_step (refusing_removal e) = nuclei_step e"
  "testssl_step (refusing_removal e) = testssl_step e"
  unfolding check_git_def [abs_def] secrets_step_def [abs_def] nuclei_step_def [abs_def]
    testssl_step_def [abs_def] refusing_removal_primitives refusing_removal_functions
  by (rule refl)+

lemma refusing_removal_body:
  "perform_scan_body (refusing_removal e) = perform_scan_body e"
  unfolding perform_scan_body_def [abs_def] resolve_target_def [abs_def]
    run_tools_def [abs_def] refusing_removal_primitives refusing_removal_functions
    refusing_removal_steps
  by (rule refl)

text \<open>
  Claim C6. For a remote URL, whatever happens between the start of the scan and its
  \<^verbatim>\<open>finally\<close> clause: when the removal is not refused, no directory is left at the path
  of the workspace after the scan. When the operating system refuses the removal, the scan
  returns the same flag as it does when the removal goes through, and, the workspace being
  there, all that the \<^verbatim>\<open>finally\<close> clause adds is the attempt and one error record in the
  log.
\<close>

theorem workspace_removed_after_remote_scan:
  assumes "is_url target"
  shows "(\<not> os_refuses e (RmTree (abspath (cwd e) TEMP_REPO)) \<longrightarrow>
            node_at (fs (snd (perform_scan e target tools st))) (abspath (cwd e) TEMP_REPO)
              \<noteq> Some Dir)
         \<and> fst (perform_scan (refusing_removal e) target tools st)
             = fst (perform_scan e target tools st)
         \<and> (path_exists e TEMP_REPO (snd (snd (perform_scan_body e target tools st))) \<longrightarrow>
              snd (perform_scan (refusing_removal e) target tools st)
                = log ERROR [S ''Failed to remove temporary directory: '', S TEMP_REPO,
                             S ''.  Manual removal may be needed. Error: '', E OSError]
                    (record_event (RmTree (abspath (cwd e) TEMP_REPO))
                       (snd (snd (perform_scan_body e target tools st)))))"
proof -
  let ?st1 = "snd (snd (perform_scan_body e target tools st))"
  have 1: "node_at (fs (snd (perform_scan e target tools st))) (abspath (cwd e) TEMP_REPO)
             \<noteq> Some Dir"
    if "\<not> os_refuses e (RmTree (abspath (cwd e) TEMP_REPO))"
    unfolding perform_scan_url_snd [OF assms] by (rule cleanup_leaves_no_dir [OF that])
  have 2: "fst (perform_scan (refusing_removal e) target tools st)
             = fst (perform_scan e target tools st)"
    by (simp add: perform_scan_fst refusing_removal_body)
  have 3: "snd (perform_scan (refusing_removal e) target tools st)
             = log ERROR [S ''Failed to remove temporary directory: '', S TEMP_REPO,
                          S ''.  Manual removal may be needed. Error: '', E OSError]
                 (record_event (RmTree (abspath (cwd e) TEMP_REPO)) ?st1)"
    if "path_exists e TEMP_REPO ?st1"
    using cleanup_refused [of "refusing_removal e" ?st1] that
    by (simp add: perform_scan_url_snd [OF assms] refusing_removal_body
          refusing_removal_primitives)
  from 1 2 3 show ?thesis by simp
qed

theorem workspace_removed_after_remote_scan_witness:
  "is_url ''https://example.com/app.git''
   \<and> \<not> os_refuses sample_env (RmTree (abspath (cwd sample_env) TEMP_REPO))
   \<and> node_at (fs (snd (perform_scan sample_env ''https://example.com/app.git'' None
                          st_old_workspace))) [''work'', ''temp_repo''] \<noteq> Some Dir
   \<and> fst (perform_scan stubborn_env ''https://example.com/app.git'' None st_old_workspace)
       = fst (perform_scan sample_env ''https://example.com/app.git'' None st_old_workspace)
   \<and> path_exists sample_env TEMP_REPO
        (snd (snd (perform_scan_body sample_env ''https://example.com/app.git'' None
                     st_old_workspace)))
   \<and> snd (perform_scan stubborn_env ''https://example.com/app.git'' None st_old_workspace)
       = log ERROR [S ''Failed to remove temporary directory: '', S TEMP_REPO,
                    S ''.  Manual removal may be needed. Error: '', E OSError]
           (record_event (RmTree [''work'', ''temp_repo''])
              (snd (snd (perform_scan_body sample_env ''https://example.com/app.git'' None
                           st_old_workspace))))"
  using workspace_removed_after_remote_scan
          [of "''https://example.com/app.git''" sample_env None st_old_workspace]
        workspace_kept [OF sample_tools_keep_workspace,
          of st_old_workspace "''https://example.com/app.git''" None]
  by (simp add: is_url_def path_exists_def stubborn_env_def node_at_def st_old_workspace_def
        initial_state_def)

subsection \<open>Local targets and the scanners that need a URL\<close>

lemma walk_update:
  "walk f cur cs = Some q \<Longrightarrow> node_at f q = Some Dir \<Longrightarrow> node_at f p \<noteq> Some Dir \<Longrightarrow>
     walk (f(p \<mapsto> x)) cur cs = Some q"
proof (induction cs arbitrary: cur)
  case Nil
  then show ?case by simp
next
  case (Cons c cs)
  from Cons.prems(1) have d: "node_at f cur = Some Dir"
    by (simp split: if_splits)
  with Cons.prems(3) have "cur \<noteq> p" by auto
  with d have "node_at (f(p \<mapsto> x)) cur = Some Dir"
    by (auto simp: node_at_def split: if_splits)
  with Cons d show ?case by (simp add: fun_upd_def)
qed

lemma lookup_update:
  assumes "lookup f wd s = Some Dir" and "node_at f p \<noteq> Some Dir"
  shows "lookup (f(p \<mapsto> x)) wd s = Some Dir"
proof -
  from assms(1) obtain q where
    q: "s \<noteq> []" "walk f (if hd s = CHR ''/'' then [] else wd) (split_path s) = Some q"
       "node_at f q = Some Dir"
    by (auto simp: lookup_def split: if_splits option.splits)
  from q(3) assms(2) have "q \<noteq> p" by auto
  with q(3) have "node_at (f(p \<mapsto> x)) q = Some Dir"
    by (auto simp: node_at_def split: if_splits)
  with walk_update [OF q(2) q(3) assms(2), of x] q(1) show ?thesis
    by (simp add: lookup_def)
qed

lemma target_writes_keep: "writes_keep e (\<lambda>f. lookup f (cwd e) t = Some Dir)"
  by (simp add: writes_keep_def can_write_def lookup_update)

lemma target_procs_keep:
  "tools_keep_target e t \<Longrightarrow> procs_keep e (\<lambda>f. lookup f (cwd e) t = Some Dir)"
  by (simp add: tools_keep_target_def procs_keep_def)

lemma local_scan_ops_no_url_adapter:
  "\<not> is_url t \<Longrightarrow> \<forall>x\<in>scan_ops e t st. \<not> url_adapter_call x"
  by (simp add: scan_ops_def resolve_ops_def tool_ops_def url_adapter_call_def
        secrets_command_def)

lemma local_scan_state:
  assumes "\<not> is_url t" and "resolution_succeeds e t st"
  shows "snd (perform_scan e t tools st)
           = run_tools e t t tools (snd (snd (resolve_target e t st)))"
proof -
  have i: "isdir e t st" and g: "fst (is_git_repository e t st)"
    using assms by (simp_all add: resolution_succeeds_def)
  have r: "fst (resolve_target e t st) = Resolved t"
    using assms(1) i g by (simp add: local_resolution)
  have b: "snd (snd (perform_scan_body e t tools st))
             = run_tools e t t tools (snd (snd (resolve_target e t st)))"
    using r by (simp add: perform_scan_body_def split_beta)
  show ?thesis
    using assms(1) b by (simp add: perform_scan_snd perform_scan_body_temp_dir cleanup_def)
qed

lemma local_target_kept:
  assumes "\<not> is_url t" and "tools_keep_target e t" and "isdir e t st"
  shows "isdir e t (secrets_step e p ts (snd (snd (resolve_target e t st))))"
proof -
  let ?P = "\<lambda>f. lookup f (cwd e) t = Some Dir"
  have 1: "?P (fs (snd (snd (resolve_target e t st))))"
    by (rule resolve_target_keeps [where P = ?P, OF target_procs_keep [OF assms(2)]])
       (use assms in \<open>simp_all add: isdir_def\<close>)
  have "?P (fs (secrets_step e p ts (snd (snd (resolve_target e t st)))))"
    by (rule secrets_step_keeps [where P = ?P, OF target_procs_keep [OF assms(2)]
          target_writes_keep 1])
  then show ?thesis by (simp add: isdir_def)
qed


lemma local_steps:
  assumes "\<not> is_url t"
  shows "testssl_step e t ts (nuclei_step e t ts st2)
           = st2\<lparr>logs := logs st2
                  @ (if ''nuclei'' \<in> set ts \<and> isdir e t st2 then [nuclei_skipped] else [])
                  @ (if ''testssl.sh'' \<in> set ts then [testssl_skipped] else [])\<rparr>"
  using assms
  by (simp add: testssl_step_def nuclei_step_def log_def nuclei_skipped_def testssl_skipped_def)

lemma sample_tools_keep_repo: "tools_keep_target sample_env ''repo''"
  by (simp add: tools_keep_target_def lookup_def norm_step_def node_at_def sample_run_def)

text \<open>
  Claim C5. A target that does not begin with \<^verbatim>\<open>http://\<close> or \<^verbatim>\<open>https://\<close> is treated as a
  local path. For such a target, whatever tools are asked for, the scan starts neither
  \<^verbatim>\<open>nuclei\<close> nor \<^verbatim>\<open>testssl.sh\<close>. When the scan reaches the tools (resolution succeeds)
  and no external process takes the target directory away, the state after the scan is the
  state after the secret scan with nothing added but one log record for each of the two
  scanners that was asked for, saying that it is skipped; the record for \<^verbatim>\<open>testssl.sh\<close>,
  when that tool was asked for, is the last one of the log in any case.
\<close>

theorem local_target_skips_url_scanners:
  assumes "\<not> is_url target"
  shows "filter url_adapter_call (events (snd (perform_scan e target tools st)))
           = filter url_adapter_call (events st)
         \<and> (resolution_succeeds e target st \<and> tools_keep_target e target \<longrightarrow>
              snd (perform_scan e target tools st)
                = (secrets_step e target (effective_tools tools)
                     (snd (snd (resolve_target e target st))))
                  \<lparr>logs := logs (secrets_step e target (effective_tools tools)
                                   (snd (snd (resolve_target e target st))))
                     @ (if ''nuclei'' \<in> set (effective_tools tools) then [nuclei_skipped] else [])
                     @ (if ''testssl.sh'' \<in> set (effective_tools tools)
                        then [testssl_skipped] else [])\<rparr>)
         \<and> (resolution_succeeds e target st \<and> ''testssl.sh'' \<in> set (effective_tools tools) \<longrightarrow>
              last (logs (snd (perform_scan e target tools st))) = testssl_skipped)"
proof -
  let ?ts = "effective_tools tools"
  let ?st2 = "secrets_step e target ?ts (snd (snd (resolve_target e target st)))"
  have 1: "filter url_adapter_call (events (snd (perform_scan e target tools st)))
             = filter url_adapter_call (events st)"
    by (rule emits_filter [OF perform_scan_emits])
       (rule local_scan_ops_no_url_adapter [OF assms])
  have f: "snd (perform_scan e target tools st) = testssl_step e target ?ts (nuclei_step e target ?ts ?st2)"
    if "resolution_succeeds e target st"
    using local_scan_state [OF assms that, of tools] by (simp add: run_tools_def Let_def)
  have 2: "snd (perform_scan e target tools st)
             = ?st2\<lparr>logs := logs ?st2
                  @ (if ''nuclei'' \<in> set ?ts then [nuclei_skipped] else [])
                  @ (if ''testssl.sh'' \<in> set ?ts then [testssl_skipped] else [])\<rparr>"
    if r: "resolution_succeeds e target st" and k: "tools_keep_target e target"
  proof -
    have "isdir e target st" using r assms by (simp add: resolution_succeeds_def)
    then have "isdir e target ?st2" by (rule local_target_kept [OF assms k])
    then show ?thesis by (simp add: f [OF r] local_steps [OF assms])
  qed
  have 3: "last (logs (snd (perform_scan e target tools st))) = testssl_skipped"
    if "resolution_succeeds e target st" "''testssl.sh'' \<in> set ?ts"
    using that(2) by (simp add: f [OF that(1)] local_steps [OF assms])
  from 1 2 3 show ?thesis by simp
qed

theorem local_target_skips_url_scanners_witness:
  "\<not> is_url ''repo''
   \<and> resolution_succeeds sample_env ''repo'' st_local_repo
   \<and> tools_keep_target sample_env ''repo''
   \<and> ''nuclei'' \<in> set (effective_tools None) \<and> ''testssl.sh'' \<in> set (effective_tools None)
   \<and> filter url_adapter_call (events (snd (perform_scan sample_env ''repo'' None st_local_repo)))
       = []
   \<and> logs (snd (perform_scan sample_env ''repo'' None st_local_repo))
       = logs (secrets_step sample_env ''repo'' ALL_TOOLS
                 (snd (snd (resolve_target sample_env ''repo'' st_local_repo))))
         @ [nuclei_skipped, testssl_skipped]
   \<and> last (logs (snd (perform_scan sample_env ''repo'' None st_local_repo))) = testssl_skipped"
proof -
  have a: "\<not> is_url ''repo''"
    by (simp add: is_url_def)
  have r: "resolution_succeeds sample_env ''repo'' st_local_repo"
    by (simp add: is_url_def resolution_succeeds_def isdir_def lookup_def norm_step_def
          path_join_def is_git_repository_def node_at_def st_local_repo_def initial_state_def)
  have m: "''nuclei'' \<in> set (effective_tools None) \<and> ''testssl.sh'' \<in> set (effective_tools None)"
    by (simp add: effective_tools_def ALL_TOOLS_def)
  note t = local_target_skips_url_scanners [OF a, of sample_env None st_local_repo]
  have 1: "filter url_adapter_call
             (events (snd (perform_scan sample_env ''repo'' None st_local_repo))) = []"
    using t by (simp add: st_local_repo_def initial_state_def)
  have 2: "logs (snd (perform_scan sample_env ''repo'' None st_local_repo))
             = logs (secrets_step sample_env ''repo'' ALL_TOOLS
                       (snd (snd (resolve_target sample_env ''repo'' st_local_repo))))
               @ [nuclei_skipped, testssl_skipped]"
    using t r sample_tools_keep_repo by (simp add: effective_tools_def ALL_TOOLS_def)
  have 3: "last (logs (snd (perform_scan sample_env ''repo'' None st_local_repo)))
             = testssl_skipped"
    using t r m by simp
  from a r sample_tools_keep_repo m 1 2 3 show ?thesis by simp
qed

subsection \<open>Cadences\<close>

text \<open>The polling loop has no exit.\<close>

lemma polling_loop_never_returns: "polling_loop e t tools n st = None"
proof -
  have "False" if "polling_loop e t tools n st = Some y" for y
    by (rule polling_loop.raw_induct [where P = "\<lambda>e t tools n st y. False", OF _ that]) blast
  then show ?thesis by (cases "polling_loop e t tools n st") auto
qed

lemma enter_loop_never_returns: "enter_loop e t c tools st = None"
  by (simp add: enter_loop_def polling_loop_never_returns)

lemma sample_job_units [simp]:
  "job_has_unit sample_env ''day''"
  "job_has_unit sample_env ''week''"
  "\<not> job_has_unit sample_env ''month''"
  by (simp_all add: sample_env_def schedule_job_units_def)

text \<open>
  Claim C9. With \<^verbatim>\<open>once\<close> the job runs one time and the call returns: one scan, then the
  consolidation when the scan returned true and an error record otherwise; \<^verbatim>\<open>main\<close> does
  the same without the scheduler. With \<^verbatim>\<open>daily\<close> and \<^verbatim>\<open>weekly\<close> a job is registered under
  the unit \<^verbatim>\<open>day\<close> or \<^verbatim>\<open>week\<close> and the call never returns. With \<^verbatim>\<open>monthly\<close> the script
  reads the unit \<^verbatim>\<open>month\<close> of the job object; the job object of the \<^verbatim>\<open>schedule\<close> library
  has no such unit, so the call ends at once with \<^verbatim>\<open>AttributeError\<close>, before a job is
  registered and before the loop, and \<^verbatim>\<open>main\<close> logs the error and returns.
\<close>

theorem schedule_cadences:
  "schedule_scan e target ''once'' tools st = Some (Inr (), scheduled_job e target tools st)
   \<and> scheduled_job e target tools st
       = (if fst (perform_scan e target tools
                    (log INFO [S ''Starting scheduled scan for target: '', S target] st))
          then consolidate_reports e DEFAULT_OUTPUT
                 (log INFO [S ''Scheduled scan for target: '', S target,
                            S '' completed successfully.'']
                    (snd (perform_scan e target tools
                            (log INFO [S ''Starting scheduled scan for target: '', S target] st))))
          else log ERROR [S ''Scheduled scan for target: '', S target, S '' failed.'']
                 (snd (perform_scan e target tools
                         (log INFO [S ''Starting scheduled scan for target: '', S target] st))))
   \<and> main_scan e target ''once'' tools st
       = Some (if fst (perform_scan e target tools st)
               then consolidate_reports e DEFAULT_OUTPUT (snd (perform_scan e target tools st))
               else log ERROR [S ''Scan failed.''] (snd (perform_scan e target tools st)))
   \<and> (job_has_unit e ''day'' \<longrightarrow>
        schedule_scan e target ''daily'' tools st = None
        \<and> main_scan e target ''daily'' tools st = None)
   \<and> (job_has_unit e ''week'' \<longrightarrow>
        schedule_scan e target ''weekly'' tools st = None
        \<and> main_scan e target ''weekly'' tools st = None)
   \<and> (\<not> job_has_unit e ''month'' \<longrightarrow>
        schedule_scan e target ''monthly'' tools st = Some (Inl AttributeError, st)
        \<and> main_scan e target ''monthly'' tools st
            = Some (log ERROR [S ''An error occurred: '', E AttributeError] st))"
proof -
  have 1: "schedule_scan e target ''once'' tools st
             = Some (Inr (), scheduled_job e target tools st)"
    by (simp add: schedule_scan_def)
  have 2: "scheduled_job e target tools st
       = (if fst (perform_scan e target tools
                    (log INFO [S ''Starting scheduled scan for target: '', S target] st))
          then consolidate_reports e DEFAULT_OUTPUT
                 (log INFO [S ''Scheduled scan for target: '', S target,
                            S '' completed successfully.'']
                    (snd (perform_scan e target tools
                            (log INFO [S ''Starting scheduled scan for target: '', S target] st))))
          else log ERROR [S ''Scheduled scan for target: '', S target, S '' failed.'']
                 (snd (perform_scan e target tools
                         (log INFO [S ''Starting scheduled scan for target: '', S target] st))))"
    by (simp add: scheduled_job_def split_beta split: bool.split)
  have 3: "main_scan e target ''once'' tools st
       = Some (if fst (perform_scan e target tools st)
               then consolidate_reports e DEFAULT_OUTPUT (snd (perform_scan e target tools st))
               else log ERROR [S ''Scan failed.''] (snd (perform_scan e target tools st)))"
    by (simp add: main_scan_def split_beta split: bool.split)
  have 4: "schedule_scan e target ''daily'' tools st = None
           \<and> main_scan e target ''daily'' tools st = None"
    if "job_has_unit e ''day''"
    using that
    by (simp add: main_scan_def schedule_scan_def register_job_def enter_loop_never_returns)
  have 5: "schedule_scan e target ''weekly'' tools st = None
           \<and> main_scan e target ''weekly'' tools st = None"
    if "job_has_unit e ''week''"
    using that
    by (simp add: main_scan_def schedule_scan_def register_job_def enter_loop_never_returns)
  have 6: "schedule_scan e target ''monthly'' tools st = Some (Inl AttributeError, st)
           \<and> main_scan e target ''monthly'' tools st
               = Some (log ERROR [S ''An error occurred: '', E AttributeError] st)"
    if "\<not> job_has_unit e ''month''"
    using that by (simp add: main_scan_def schedule_scan_def register_job_def)
  from 1 2 3 4 5 6 show ?thesis by blast
qed

theorem schedule_cadences_witness:
  "job_has_unit sample_env ''day'' \<and> job_has_unit sample_env ''week''
   \<and> \<not> job_has_unit sample_env ''month''
   \<and> schedule_scan sample_env ''repo'' ''daily'' None st_local_repo = None
   \<and> schedule_scan sample_env ''repo'' ''weekly'' None st_local_repo = None
   \<and> schedule_scan sample_env ''repo'' ''monthly'' None st_local_repo
       = Some (Inl AttributeError, st_local_repo)
   \<and> main_scan sample_env ''repo'' ''monthly'' None st_local_repo
       = Some (log ERROR [S ''An error occurred: '', E AttributeError] st_local_repo)"
  using schedule_cadences [of sample_env "''repo''" None st_local_repo]
  by simp

end
